theory Spec2Isabelle
  imports Main
begin

section \<open>Python values, exceptions and the observable world\<close>

text \<open>
  The program (\<^verbatim>\<open>src/app.py\<close>) is a sequential shell around three external services:
  a speech recogniser, a generative model and a speech synthesiser with a playback
  mixer. Its own logic is control flow over what those services answer. The embedding
  therefore makes every answer of a service an explicit input, and every call to a
  service, every printed line, every log record and every pause an entry of a trace.

  Strings are lists of 8-bit characters, read as code points below 256.
\<close>

datatype pyval = PyNone | PyBool bool | PyStr string

text \<open>Truth value of an object, as \<^verbatim>\<open>if x:\<close> and \<^verbatim>\<open>not x\<close> compute it.\<close>

fun truthy :: "pyval \<Rightarrow> bool" where
  "truthy PyNone = False"
| "truthy (PyBool b) = b"
| "truthy (PyStr s) = (s \<noteq> [])"

fun isinstance_str :: "pyval \<Rightarrow> bool" where
  "isinstance_str (PyStr s) = True"
| "isinstance_str v = False"

text \<open>\<^verbatim>\<open>str(x)\<close>, as an f-string renders a value.\<close>

fun py_str :: "pyval \<Rightarrow> string" where
  "py_str PyNone = ''None''"
| "py_str (PyBool b) = (if b then ''True'' else ''False'')"
| "py_str (PyStr s) = s"

text \<open>The characters of a string object; empty for an object that is no string.\<close>

fun str_of :: "pyval \<Rightarrow> string" where
  "str_of (PyStr s) = s"
| "str_of v = []"

text \<open>
  Exceptions. Every constructor is a subclass of \<^verbatim>\<open>Exception\<close> and carries the text
  that \<^verbatim>\<open>str(e)\<close> yields. \<^verbatim>\<open>OtherError\<close> stands for any other subclass of
  \<^verbatim>\<open>Exception\<close>. Asynchronous signals (\<^verbatim>\<open>KeyboardInterrupt\<close>, \<^verbatim>\<open>SystemExit\<close>)
  are not subclasses of \<^verbatim>\<open>Exception\<close> and are outside this model.
\<close>

datatype exn =
    WaitTimeoutError string
  | RequestError string
  | UnknownValueError string
  | ValueError string
  | PermissionError string
  | EOFError string
  | KeyError string
  | TypeError string
  | OtherError string

fun exn_str :: "exn \<Rightarrow> string" where
  "exn_str (WaitTimeoutError m) = m"
| "exn_str (RequestError m) = m"
| "exn_str (UnknownValueError m) = m"
| "exn_str (ValueError m) = m"
| "exn_str (PermissionError m) = m"
| "exn_str (EOFError m) = m"
| "exn_str (KeyError m) = m"
| "exn_str (TypeError m) = m"
| "exn_str (OtherError m) = m"

text \<open>The result of a call into a library: it returns a value or raises.\<close>

datatype 'a outcome = Returns 'a | Raises exn

datatype level = INFO | WARNING | ERROR

text \<open>
  Trace entries, oldest first in the trace. \<^verbatim>\<open>Sleep\<close> counts milliseconds.
  \<^verbatim>\<open>isinstance\<close> and the queries \<^verbatim>\<open>pygame.mixer.get_init\<close>,
  \<^verbatim>\<open>pygame.mixer.music.get_busy\<close> and \<^verbatim>\<open>os.path.exists\<close> leave no entry.
  \<^verbatim>\<open>print\<close>, logging and \<^verbatim>\<open>time.sleep\<close> do not raise. Every call into a library
  that stands outside every \<^verbatim>\<open>try\<close> block may raise: entering and leaving the
  \<^verbatim>\<open>with\<close> block of the microphone, the four calls at the head of the \<^verbatim>\<open>finally\<close>
  block of \<^verbatim>\<open>speak_text\<close>, and the two calls of the \<^verbatim>\<open>finally\<close> block of the program.
  Inside the \<^verbatim>\<open>try\<close> blocks the calls that calibrate, listen, recognise, generate,
  synthesise, save, open the mixer, load, play and delete may raise; the polls and the
  ticks there are taken to return, an exception of theirs would take the handler that
  those calls already reach.
\<close>

datatype event =
    Print string
  | Log level string
  | Input string
  | GenerateContent string
  | MicEnter
  | MicExit
  | AdjustForAmbientNoise
  | Listen
  | RecognizeGoogle string
  | GTTS string string
  | Save string
  | MixerInit
  | MusicLoad string
  | MusicPlay
  | Tick
  | Sleep nat
  | MusicStop
  | MixerQuit
  | Remove string

text \<open>
  The world a run acts on: the trace, and whether the file \<^verbatim>\<open>temp_speech.mp3\<close> is
  on disk. Standard input is a list of lines, passed along separately by the functions
  that read it.
\<close>

record world =
  trace :: "event list"
  file_exists :: bool

definition emit :: "event \<Rightarrow> world \<Rightarrow> world" where
  "emit e w = w\<lparr>trace := trace w @ [e]\<rparr>"

definition print :: "string \<Rightarrow> world \<Rightarrow> world" where
  "print s w = emit (Print s) w"

definition logger :: "level \<Rightarrow> string \<Rightarrow> world \<Rightarrow> world" where
  "logger l s w = emit (Log l s) w"

text \<open>\<^verbatim>\<open>input(prompt)\<close>: shows the prompt and reads a line; at end of input it raises.\<close>

definition input :: "string \<Rightarrow> string list \<Rightarrow> world \<Rightarrow> (exn + string) \<times> string list \<times> world" where
  "input prompt stdin w =
     (case stdin of
        [] \<Rightarrow> (Inl (EOFError ''EOF when reading a line''), [], emit (Input prompt) w)
      | l # ls \<Rightarrow> (Inr l, ls, emit (Input prompt) w))"

subsection \<open>String methods\<close>

text \<open>\<^verbatim>\<open>str.isspace\<close> on one character, for code points below 256.\<close>

definition py_isspace :: "char \<Rightarrow> bool" where
  "py_isspace c =
     (let n = (of_char c :: nat)
      in (9 \<le> n \<and> n \<le> 13) \<or> (28 \<le> n \<and> n \<le> 32) \<or> n = 133 \<or> n = 160)"

text \<open>\<^verbatim>\<open>s.strip()\<close>: leading and trailing whitespace removed.\<close>

definition strip :: "string \<Rightarrow> string" where
  "strip s = rev (dropWhile py_isspace (rev (dropWhile py_isspace s)))"

text \<open>\<^verbatim>\<open>s.lower()\<close> on one character, for code points below 256.\<close>

definition lower_char :: "char \<Rightarrow> char" where
  "lower_char c =
     (let n = (of_char c :: nat)
      in if (65 \<le> n \<and> n \<le> 90) \<or> (192 \<le> n \<and> n \<le> 222 \<and> n \<noteq> 215)
         then char_of (n + 32) else c)"

definition lower :: "string \<Rightarrow> string" where
  "lower s = map lower_char s"

text \<open>\<^verbatim>\<open>needle in hay\<close> on strings.\<close>

fun contains :: "string \<Rightarrow> string \<Rightarrow> bool" where
  "contains needle [] = (needle = [])"
| "contains needle (c # cs) =
     (take (length needle) (c # cs) = needle \<or> contains needle cs)"

text \<open>\<^verbatim>\<open>sep.join(xs)\<close>.\<close>

fun join :: "string \<Rightarrow> string list \<Rightarrow> string" where
  "join sep [] = []"
| "join sep [x] = x"
| "join sep (x # y # ys) = x @ sep @ join sep (y # ys)"

text \<open>
  The excerpt of a text that the log lines show:
  \<^verbatim>\<open>f"{s[:100]}{'...' if len(s) > 100 else ''}"\<close>.
\<close>

definition excerpt :: "string \<Rightarrow> string" where
  "excerpt s = take 100 s @ (if length s > 100 then ''...'' else '''')"

definition dquote :: string where
  "dquote = [CHR 0x22]"

definition newline :: string where
  "newline = [CHR 0x0A]"

subsection \<open>Dictionaries\<close>

text \<open>
  A \<^verbatim>\<open>dict\<close> with string keys, in insertion order. \<^verbatim>\<open>d[k]\<close> raises
  \<^verbatim>\<open>KeyError\<close> on a missing key; \<^verbatim>\<open>d[k] = v\<close> replaces in place or appends.
\<close>

type_synonym pydict = "(string \<times> pyval) list"

definition dict_get :: "pydict \<Rightarrow> string \<Rightarrow> exn + pyval" where
  "dict_get d k = (case map_of d k of None \<Rightarrow> Inl (KeyError k) | Some v \<Rightarrow> Inr v)"

fun dict_set :: "string \<Rightarrow> pyval \<Rightarrow> pydict \<Rightarrow> pydict" where
  "dict_set k v [] = [(k, v)]"
| "dict_set k v ((k', v') # d) = (if k' = k then (k, v) # d else (k', v') # dict_set k v d)"

definition keys :: "pydict \<Rightarrow> string list" where
  "keys d = map fst d"

section \<open>The response adapter: \<^verbatim>\<open>get_ai_response\<close>\<close>

text \<open>
  What \<^verbatim>\<open>model.generate_content\<close> hands back. \<^verbatim>\<open>prompt_feedback\<close> is absent
  (falsy) or an object whose \<^verbatim>\<open>block_reason\<close> is falsy (\<open>None\<close>) or an enumeration
  member, given by its \<^verbatim>\<open>name\<close>. Reading \<^verbatim>\<open>response.text\<close> finds no such attribute
  (\<^verbatim>\<open>hasattr\<close> is false, also when the read raises \<^verbatim>\<open>AttributeError\<close>), yields a
  string, or raises another exception (the attribute is computed). A part has a
  \<^verbatim>\<open>text\<close> attribute or not.
\<close>

datatype prompt_feedback = PromptFeedback (block_reason: "string option")

datatype text_attr = NoAttr | Attr string | AttrRaises exn

record gen_response =
  prompt_feedback :: "prompt_feedback option"
  text_value :: text_attr
  parts :: "string option list"

text \<open>
  The global \<^verbatim>\<open>model\<close>: \<open>None\<close> when it was never initialised, otherwise the handle,
  given by what \<^verbatim>\<open>generate_content\<close> answers to a prompt.
\<close>

type_synonym gen_model = "string \<Rightarrow> gen_response outcome"

definition UNAVAILABLE_REPLY :: string where
  "UNAVAILABLE_REPLY =
     ''Gemini AI model is not available. Please check your API key and configuration.''"

definition NO_INPUT_REPLY :: string where
  "NO_INPUT_REPLY = ''I didn't receive any input. How can I help you?''"

definition blocked_reply :: "string \<Rightarrow> string" where
  "blocked_reply reason =
     ''Sorry, your request was blocked by the AI for safety reasons ('' @ reason
       @ ''). Please try rephrasing.''"

definition UNUSUAL_REPLY :: string where
  "UNUSUAL_REPLY = ''Sorry, I received an unusual response from Gemini AI.''"

definition ERROR_REPLY :: string where
  "ERROR_REPLY =
     ''Sorry, I encountered an error while trying to get a response from Gemini AI.''"

text \<open>
  Line 176, \<^verbatim>\<open>response.prompt_feedback and response.prompt_feedback.block_reason\<close>:
  the name of the block reason when the service blocked the prompt.
\<close>

definition blocked_reason :: "gen_response \<Rightarrow> string option" where
  "blocked_reason response =
     (case prompt_feedback response of
        None \<Rightarrow> None
      | Some (PromptFeedback reason) \<Rightarrow> reason)"

text \<open>
  Line 185, \<^verbatim>\<open>[part.text for part in response.parts if hasattr(part, 'text')]\<close>.
\<close>

definition all_text_parts :: "gen_response \<Rightarrow> string list" where
  "all_text_parts response = List.map_filter (\<lambda>part. part) (parts response)"

text \<open>
  Lines 184 to 192: the fallback on the parts, and the reply for a response with
  nothing to read.
\<close>

definition parts_fallback :: "gen_response \<Rightarrow> world \<Rightarrow> (exn + string) \<times> world" where
  "parts_fallback response w =
     (if parts response \<noteq> [] \<and> all_text_parts response \<noteq> []
      then (Inr (strip (join '' '' (all_text_parts response))), w)
      else (Inr UNUSUAL_REPLY,
            logger WARNING
              ''Gemini returned a response, but it was empty or in an unexpected format.'' w))"

text \<open>
  Lines 175 to 192: what is read off a response. \<open>Inl\<close> is an exception raised while
  reading, which the enclosing \<^verbatim>\<open>try\<close> of \<^verbatim>\<open>get_ai_response\<close> catches.
\<close>

definition read_response :: "gen_response \<Rightarrow> world \<Rightarrow> (exn + string) \<times> world" where
  "read_response response w =
     (case blocked_reason response of
        Some reason \<Rightarrow>
          (Inr (blocked_reply reason),
           logger WARNING (''Gemini AI blocked the prompt. Reason: '' @ reason) w)
      | None \<Rightarrow>
          (case text_value response of
             AttrRaises e \<Rightarrow> (Inl e, w)
           | Attr t \<Rightarrow> if t \<noteq> [] then (Inr (strip t), w) else parts_fallback response w
           | NoAttr \<Rightarrow> parts_fallback response w))"

definition get_ai_response :: "gen_model option \<Rightarrow> string \<Rightarrow> world \<Rightarrow> string \<times> world" where
  "get_ai_response model prompt w =
     (case model of
        None \<Rightarrow>
          (UNAVAILABLE_REPLY,
           logger WARNING ''Gemini model is not initialized. Cannot get AI response.'' w)
      | Some m \<Rightarrow>
          if prompt = [] then
            (NO_INPUT_REPLY, logger INFO ''Received empty prompt for AI response.'' w)
          else
            (let w1 = logger INFO (''Sending to Gemini AI: '' @ dquote @ excerpt prompt @ dquote) w;
                 w2 = emit (GenerateContent prompt) w1;
                 failed = (\<lambda>e w'. (ERROR_REPLY, logger ERROR (''Error with Gemini API: '' @ exn_str e) w'))
             in case m prompt of
                  Raises e \<Rightarrow> failed e w2
                | Returns response \<Rightarrow>
                    (case read_response response w2 of
                       (Inl e, w3) \<Rightarrow> failed e w3
                     | (Inr reply, w3) \<Rightarrow> (reply, w3))))"

section \<open>The language registry and \<^verbatim>\<open>select_language\<close>\<close>

record language =
  name :: string
  code :: string
  gtts_lang :: string

definition SUPPORTED_LANGUAGES :: "(string \<times> language) list" where
  "SUPPORTED_LANGUAGES =
     [(''1'', \<lparr>name = ''English (US)'', code = ''en-US'', gtts_lang = ''en''\<rparr>),
      (''2'', \<lparr>name = ''Hindi (India)'', code = ''hi-IN'', gtts_lang = ''hi''\<rparr>),
      (''3'', \<lparr>name = ''Kannada (India)'', code = ''kn-IN'', gtts_lang = ''kn''\<rparr>)]"

text \<open>
  Lines 52 to 57: the loop of \<^verbatim>\<open>select_language\<close>. Each round is one
  \<^verbatim>\<open>input(...)\<close>, which takes the next line or raises at end of input.
\<close>

fun select_language_loop :: "string list \<Rightarrow> world \<Rightarrow> (exn + language) \<times> string list \<times> world" where
  "select_language_loop [] w =
     (Inl (EOFError ''EOF when reading a line''), [],
      emit (Input ''Enter the number of your choice: '') w)"
| "select_language_loop (choice # stdin) w =
     (let w1 = emit (Input ''Enter the number of your choice: '') w
      in case map_of SUPPORTED_LANGUAGES choice of
           Some lang_info \<Rightarrow> (Inr lang_info, stdin, w1)
         | None \<Rightarrow> select_language_loop stdin (print ''Invalid choice. Please try again.'' w1))"

definition select_language :: "string list \<Rightarrow> world \<Rightarrow> (exn + language) \<times> string list \<times> world" where
  "select_language stdin w =
     select_language_loop stdin
       (fold (\<lambda>(key, lang_info). print (key @ '': '' @ name lang_info)) SUPPORTED_LANGUAGES
          (print (newline @ ''Please select a language for speech recognition and TTS:'') w))"

text \<open>Lines 49 to 51: the lines that \<^verbatim>\<open>select_language\<close> prints before it asks.\<close>

definition MENU :: "string list" where
  "MENU =
     [newline @ ''Please select a language for speech recognition and TTS:'',
      ''1: English (US)'', ''2: Hindi (India)'', ''3: Kannada (India)'']"

section \<open>Speech recognition: \<^verbatim>\<open>recognize_speech_from_mic\<close>\<close>

text \<open>
  What the recogniser and the microphone do during one call. The captured audio is an
  opaque token. Entering the \<^verbatim>\<open>with\<close> block opens the audio device and leaving it
  closes the device; both are calls into the library, outside every \<^verbatim>\<open>try\<close>.
\<close>

record recognizer =
  adjust_for_ambient_noise :: "unit outcome"
  listen :: "nat outcome"
  recognize_google :: "string outcome"

record microphone =
  mic_enter :: "unit outcome"
  mic_exit :: "unit outcome"

definition result_dict :: "pyval \<Rightarrow> pyval \<Rightarrow> pyval \<Rightarrow> pydict" where
  "result_dict s e t = [(''success'', s), (''error'', e), (''transcription'', t)]"

text \<open>
  Lines 69 to 84, the body of the \<^verbatim>\<open>with\<close> block: \<open>Inl\<close> is the dictionary of an
  early \<^verbatim>\<open>return\<close>, \<open>Inr\<close> the audio with which the block ends.
\<close>

definition capture :: "recognizer \<Rightarrow> string \<Rightarrow> world \<Rightarrow> (pydict + nat) \<times> world" where
  "capture r language_name w =
     (let w1 = print (newline @ ''Adjusting for ambient noise, please wait...'') w;
          w2 = emit AdjustForAmbientNoise w1
      in case adjust_for_ambient_noise r of
           Raises e \<Rightarrow>
             (Inl (result_dict (PyBool False)
                     (PyStr (''Ambient noise adjustment failed: '' @ exn_str e)) PyNone),
              logger ERROR (''Error adjusting for ambient noise: '' @ exn_str e) w2)
         | Returns u \<Rightarrow>
     (let w3 = print (''Listening in '' @ language_name @ ''. Please start speaking...'') w2;
          w4 = emit Listen w3
      in case listen r of
           Raises (WaitTimeoutError m) \<Rightarrow>
             (Inl (result_dict (PyBool True) (PyStr ''No speech detected'') PyNone),
              logger INFO ''No speech detected within the time limit.'' w4)
         | Raises e \<Rightarrow>
             (Inl (result_dict (PyBool False) (PyStr (''Listening failed: '' @ exn_str e)) PyNone),
              logger ERROR (''Error during listening: '' @ exn_str e) w4)
         | Returns audio \<Rightarrow> (Inr audio, w4)))"

text \<open>Lines 86 to 107: the recognition of the captured audio.\<close>

definition recognize_audio :: "recognizer \<Rightarrow> string \<Rightarrow> world \<Rightarrow> pydict \<times> world" where
  "recognize_audio r language_code w =
     (let w1 = print ''Processing your speech...'' w;
          response = result_dict (PyBool True) PyNone PyNone;
          w2 = emit (RecognizeGoogle language_code) w1
      in case recognize_google r of
           Returns t \<Rightarrow> (dict_set ''transcription'' (PyStr t) response, w2)
         | Raises (RequestError m) \<Rightarrow>
             (dict_set ''error''
                (PyStr ''API unavailable. Check your internet connection or API quota.'')
                (dict_set ''success'' (PyBool False) response),
              logger ERROR (''API unavailable or request error: '' @ m) w2)
         | Raises (UnknownValueError m) \<Rightarrow>
             (dict_set ''error'' (PyStr ''Unable to recognize speech.'') response,
              logger INFO ''Google Speech Recognition could not understand audio'' w2)
         | Raises e \<Rightarrow>
             (dict_set ''error'' (PyStr (''Speech recognition failed: '' @ exn_str e))
                (dict_set ''success'' (PyBool False) response),
              logger ERROR
                (''An unexpected error occurred during speech recognition: '' @ exn_str e) w2))"


text \<open>
  The arguments \<^verbatim>\<open>recognizer\<close> and \<^verbatim>\<open>microphone\<close> are \<open>None\<close> when the object
  passed is no instance of \<^verbatim>\<open>sr.Recognizer\<close> or \<^verbatim>\<open>sr.Microphone\<close>. The result is
  \<open>Inl\<close> when an exception leaves the function. The \<^verbatim>\<open>with\<close> statement calls
  \<^verbatim>\<open>__enter__\<close>, runs its body, and calls \<^verbatim>\<open>__exit__\<close> on the way out, also on the
  way out of a \<^verbatim>\<open>return\<close>; an exception of either call propagates.
\<close>

definition recognize_speech_from_mic ::
  "recognizer option \<Rightarrow> microphone option \<Rightarrow> string \<Rightarrow> string \<Rightarrow> world
     \<Rightarrow> (exn + pydict) \<times> world" where
  "recognize_speech_from_mic recognizer microphone language_code language_name w =
     (case recognizer of
        None \<Rightarrow>
          (Inr (result_dict (PyBool False) (PyStr ''Recognizer not properly initialized.'') PyNone),
           logger ERROR ''Recognizer not an instance of sr.Recognizer'' w)
      | Some r \<Rightarrow>
     (case microphone of
        None \<Rightarrow>
          (Inr (result_dict (PyBool False) (PyStr ''Microphone not properly initialized.'') PyNone),
           logger ERROR ''Microphone not an instance of sr.Microphone'' w)
      | Some mic \<Rightarrow>
     (case mic_enter mic of
        Raises e \<Rightarrow> (Inl e, emit MicEnter w)
      | Returns source \<Rightarrow>
     (case capture r language_name (emit MicEnter w) of
        (body, w1) \<Rightarrow>
     (case mic_exit mic of
        Raises e \<Rightarrow> (Inl e, emit MicExit w1)
      | Returns u \<Rightarrow>
     (case body of
        Inl response \<Rightarrow> (Inr response, emit MicExit w1)
      | Inr audio \<Rightarrow>
          (case recognize_audio r language_code (emit MicExit w1) of
             (response, w2) \<Rightarrow> (Inr response, w2))))))))"

section \<open>Speech output: \<^verbatim>\<open>speak_text\<close>\<close>

text \<open>
  What the synthesiser, the mixer and the file system do during one call:
  \<^item> the outcome of each call of the \<^verbatim>\<open>try\<close> block; when \<^verbatim>\<open>tts.save\<close> raises,
    \<open>save_leaves_file\<close> tells whether it had created the file by then;
  \<^item> \<open>playing_polls\<close>: how many polls of \<^verbatim>\<open>get_busy()\<close> answer true while the clip
    plays (a clip is finite, so the waiting loop ends);
  \<^item> \<open>get_init\<close>, \<open>music_stop\<close>, \<open>mixer_quit\<close> and \<open>path_exists\<close>: the outcomes
    of the calls of lines 143 to 146, at the head of the \<^verbatim>\<open>finally\<close> block and outside
    every \<^verbatim>\<open>try\<close>; when \<^verbatim>\<open>os.path.exists\<close> returns, its answer is the state of the
    disk;
  \<^item> \<open>held_polls\<close>: during how many rounds of the deletion loop the playback subsystem
    still reports the file in use (\<^verbatim>\<open>get_init()\<close> and \<^verbatim>\<open>get_busy()\<close> both true).
    The mixer that line 145 has closed reports nothing in use, so this number is 0
    unless another playback backend stands in for it;
  \<^item> the outcome of \<^verbatim>\<open>os.remove\<close>.
\<close>

record tts_env =
  gtts_init :: "unit outcome"
  gtts_save :: "unit outcome"
  save_leaves_file :: bool
  mixer_init :: "unit outcome"
  music_load :: "unit outcome"
  music_play :: "unit outcome"
  playing_polls :: nat
  get_init :: "bool outcome"
  music_stop :: "unit outcome"
  mixer_quit :: "unit outcome"
  path_exists :: "unit outcome"
  held_polls :: nat
  os_remove :: "unit outcome"

definition temp_audio_file :: string where
  "temp_audio_file = ''temp_speech.mp3''"

text \<open>Lines 127 and 128: one tick per poll that finds the music playing.\<close>

fun wait_while_busy :: "nat \<Rightarrow> world \<Rightarrow> world" where
  "wait_while_busy 0 w = w"
| "wait_while_busy (Suc n) w = wait_while_busy n (emit Tick w)"

text \<open>Lines 118 to 130, the \<^verbatim>\<open>try\<close> block: the exception it raises, if any.\<close>

definition speak_try :: "string \<Rightarrow> string \<Rightarrow> tts_env \<Rightarrow> world \<Rightarrow> exn option \<times> world" where
  "speak_try text_to_speak gtts_lang_code env w =
     (let w1 = logger INFO
                 (''Generating speech in '' @ gtts_lang_code @ '' for: ''
                    @ [CHR 0x27] @ excerpt text_to_speak @ [CHR 0x27]) w;
          w2 = emit (GTTS text_to_speak gtts_lang_code) w1
      in case gtts_init env of Raises e \<Rightarrow> (Some e, w2) | Returns tts \<Rightarrow>
     (let w3 = emit (Save temp_audio_file) w2
      in case gtts_save env of
           Raises e \<Rightarrow> (Some e, w3\<lparr>file_exists := file_exists w3 \<or> save_leaves_file env\<rparr>)
         | Returns u \<Rightarrow>
     (let w4 = emit MixerInit (w3\<lparr>file_exists := True\<rparr>)
      in case mixer_init env of Raises e \<Rightarrow> (Some e, w4) | Returns u \<Rightarrow>
     (let w5 = emit (MusicLoad temp_audio_file) w4
      in case music_load env of Raises e \<Rightarrow> (Some e, w5) | Returns u \<Rightarrow>
     (let w6 = emit MusicPlay (logger INFO ''Playing audio...'' w5)
      in case music_play env of Raises e \<Rightarrow> (Some e, w6) | Returns u \<Rightarrow>
           (None, emit (Sleep 500) (wait_while_busy (playing_polls env) w6)))))))"

text \<open>
  Lines 132 to 141, the \<^verbatim>\<open>except\<close> clauses: the exception still pending after them.
\<close>

definition speak_except :: "string \<Rightarrow> exn \<Rightarrow> world \<Rightarrow> exn option \<times> world" where
  "speak_except gtts_lang_code e w =
     (let generic =
        (None, print (''An error occurred during text-to-speech: '' @ exn_str e)
                 (logger ERROR (''TTS/playback error: '' @ exn_str e) w))
      in case e of
           ValueError m \<Rightarrow>
             if contains ''is not a valid language code'' m then
               (None,
                print (''Sorry, I cannot speak in '' @ gtts_lang_code
                         @ ''. Please check the language support for gTTS.'')
                  (logger ERROR
                     (''gTTS does not support the language code '' @ [CHR 0x27] @ gtts_lang_code
                        @ [CHR 0x27] @ ''. Error: '' @ m) w))
             else generic
         | _ \<Rightarrow> generic)"

text \<open>
  Lines 149 to 156, the \<^verbatim>\<open>for _ in range(3)\<close> loop with its \<^verbatim>\<open>else\<close>: the rounds left,
  the rounds during which the file is still reported in use, and the exception the loop
  raises, if any.
\<close>

fun remove_loop :: "nat \<Rightarrow> nat \<Rightarrow> tts_env \<Rightarrow> world \<Rightarrow> exn option \<times> world" where
  "remove_loop 0 held env w =
     (None,
      if file_exists w then
        logger WARNING
          (''Could not delete temporary file: '' @ temp_audio_file @ ''. It might be in use.'') w
      else w)"
| "remove_loop (Suc rounds) 0 env w =
     (let w1 = emit (Remove temp_audio_file) w
      in case os_remove env of
           Raises e \<Rightarrow> (Some e, w1)
         | Returns u \<Rightarrow> (None, w1\<lparr>file_exists := False\<rparr>))"
| "remove_loop (Suc rounds) (Suc held) env w = remove_loop rounds held env (emit (Sleep 100) w)"

text \<open>
  Lines 157 to 160, the \<^verbatim>\<open>except\<close> clauses of the deletion: the exception still
  pending after them.
\<close>

definition remove_except :: "exn \<Rightarrow> world \<Rightarrow> exn option \<times> world" where
  "remove_except e_del w =
     (case e_del of
        PermissionError m \<Rightarrow>
          (None, logger WARNING (''Permission denied to delete '' @ temp_audio_file @ ''.'') w)
      | _ \<Rightarrow>
          (None,
           logger ERROR
             (''Error deleting temp file '' @ temp_audio_file @ '': '' @ exn_str e_del) w))"

text \<open>
  Lines 143 to 145, outside every \<^verbatim>\<open>try\<close>: the mixer is stopped and closed when
  \<^verbatim>\<open>get_init()\<close> answers true. The result is the exception raised, if any.
\<close>

definition stop_mixer :: "tts_env \<Rightarrow> world \<Rightarrow> exn option \<times> world" where
  "stop_mixer env w =
     (case get_init env of
        Raises e \<Rightarrow> (Some e, w)
      | Returns initialised \<Rightarrow>
          if initialised then
            (case music_stop env of
               Raises e \<Rightarrow> (Some e, emit MusicStop w)
             | Returns u \<Rightarrow>
                 (case mixer_quit env of
                    Raises e \<Rightarrow> (Some e, emit MixerQuit (emit MusicStop w))
                  | Returns u \<Rightarrow> (None, emit MixerQuit (emit MusicStop w))))
          else (None, w))"

text \<open>
  Lines 146 to 160: the deletion of the file. \<^verbatim>\<open>os.path.exists\<close> of line 146 is
  outside the \<^verbatim>\<open>try\<close> of line 147; the loop and its handlers are inside.
\<close>

definition remove_temp_file :: "tts_env \<Rightarrow> world \<Rightarrow> exn option \<times> world" where
  "remove_temp_file env w =
     (case path_exists env of
        Raises e \<Rightarrow> (Some e, w)
      | Returns u \<Rightarrow>
          if file_exists w then
            (case remove_loop 3 (held_polls env) env w of
               (None, w1) \<Rightarrow> (None, w1)
             | (Some e_del, w1) \<Rightarrow> remove_except e_del w1)
          else (None, w))"

text \<open>Lines 142 to 160, the \<^verbatim>\<open>finally\<close> block: the exception it raises, if any.\<close>

definition speak_finally :: "tts_env \<Rightarrow> world \<Rightarrow> exn option \<times> world" where
  "speak_finally env w =
     (case stop_mixer env w of
        (Some e, w1) \<Rightarrow> (Some e, w1)
      | (None, w1) \<Rightarrow> remove_temp_file env w1)"

text \<open>The calls of lines 143 to 146, as far as the block makes them, all return.\<close>

definition cleanup_calls_return :: "tts_env \<Rightarrow> bool" where
  "cleanup_calls_return env =
     (case get_init env of
        Raises e \<Rightarrow> False
      | Returns initialised \<Rightarrow>
          (if initialised then music_stop env = Returns () \<and> mixer_quit env = Returns ()
           else True)
          \<and> path_exists env = Returns ())"

text \<open>
  Lines 117 to 141, the \<^verbatim>\<open>try\<close> block with its \<^verbatim>\<open>except\<close> clauses: the exception
  still pending when the \<^verbatim>\<open>finally\<close> block starts, and the world at that moment.
\<close>

definition speak_try_except ::
  "string \<Rightarrow> string \<Rightarrow> tts_env \<Rightarrow> world \<Rightarrow> exn option \<times> world" where
  "speak_try_except text_to_speak gtts_lang_code env w =
     (case speak_try text_to_speak gtts_lang_code env w of
        (None, w1) \<Rightarrow> (None, w1)
      | (Some e, w1) \<Rightarrow> speak_except gtts_lang_code e w1)"

text \<open>
  \<^verbatim>\<open>speak_text\<close>: the exception that leaves the function, if any, and the world after.
  An exception raised by the \<^verbatim>\<open>finally\<close> block replaces the pending one.
\<close>

definition speak_text :: "pyval \<Rightarrow> string \<Rightarrow> tts_env \<Rightarrow> world \<Rightarrow> exn option \<times> world" where
  "speak_text text_to_speak gtts_lang_code env w =
     (if \<not> truthy text_to_speak \<or> \<not> isinstance_str text_to_speak then
        (None, logger WARNING ''No valid text provided to speak. Skipping TTS.'' w)
      else
        (case speak_try_except (str_of text_to_speak) gtts_lang_code env w of
           (pending, w2) \<Rightarrow>
             (case speak_finally env w2 of
                (Some e, w3) \<Rightarrow> (Some e, w3)
              | (None, w3) \<Rightarrow> (pending, w3))))"

section \<open>The session loop\<close>

text \<open>The three variables that hold the current language (lines 219 to 221).\<close>

record session =
  current_speech_lang_code :: string
  current_speech_lang_name :: string
  current_gtts_lang :: string

text \<open>Lines 219 to 221 and 233 to 235: the three assignments from a registry entry.\<close>

definition session_of :: "language \<Rightarrow> session" where
  "session_of selected_lang_info =
     \<lparr>current_speech_lang_code = code selected_lang_info,
      current_speech_lang_name = name selected_lang_info,
      current_gtts_lang = gtts_lang selected_lang_info\<rparr>"

text \<open>What the devices do during one round of the loop.\<close>

record turn_env =
  turn_recognizer :: recognizer
  turn_microphone :: microphone
  turn_tts :: tts_env

definition AI_UNAVAILABLE_PROMPT :: string where
  "AI_UNAVAILABLE_PROMPT = ''I'm sorry, my AI brain is currently unavailable.''"

definition RETRY_PROMPT :: string where
  "RETRY_PROMPT = ''I didn't quite catch that. Could you please repeat?''"

definition NO_SPEECH_PROMPT :: string where
  "NO_SPEECH_PROMPT = ''I didn't hear anything. Please try speaking.''"

text \<open>
  Line 250, \<^verbatim>\<open>get_ai_response(recognized_text)\<close>, on the object found in the
  dictionary: a string goes to \<open>get_ai_response\<close>; on any other truthy object the
  slice \<^verbatim>\<open>prompt[:100]\<close> raises \<^verbatim>\<open>TypeError\<close> inside the \<^verbatim>\<open>try\<close> block, and a
  falsy object is taken for the empty prompt.
\<close>

definition ai_response_for :: "gen_model option \<Rightarrow> pyval \<Rightarrow> world \<Rightarrow> string \<times> world" where
  "ai_response_for model recognized_text w =
     (case recognized_text of
        PyStr s \<Rightarrow> get_ai_response model s w
      | v \<Rightarrow>
          if model = None \<or> \<not> truthy v then get_ai_response model [] w
          else
            (ERROR_REPLY,
             logger ERROR
               (''Error with Gemini API: '' @ [CHR 0x27] @ ''bool'' @ [CHR 0x27]
                  @ '' object is not subscriptable'') w))"

text \<open>
  Lines 242 to 267: what the loop does with the result of the recognition. The first
  component is the exception that leaves the loop body, if any.
\<close>

definition handle_speech_result ::
  "gen_model option \<Rightarrow> tts_env \<Rightarrow> session \<Rightarrow> pydict \<Rightarrow> world \<Rightarrow> exn option \<times> world" where
  "handle_speech_result model env s speech_result w =
     (if speech_result \<noteq> [] then
        (case dict_get speech_result ''transcription'' of
           Inl e \<Rightarrow> (Some e, w)
         | Inr recognized_text \<Rightarrow>
        (case dict_get speech_result ''success'' of
           Inl e \<Rightarrow> (Some e, w)
         | Inr success \<Rightarrow>
             if truthy success \<and> truthy recognized_text then
               (let w1 = print (replicate 30 CHR ''-'')
                           (print (''You ('' @ current_speech_lang_name s @ ''): ''
                                     @ py_str recognized_text)
                              (print (replicate 30 CHR ''-'') w))
                in if model \<noteq> None then
                     (case ai_response_for model recognized_text w1 of
                        (ai_response, w2) \<Rightarrow>
                          speak_text (PyStr ai_response) (current_gtts_lang s) env
                            (print ai_response (print ''AI Response:'' w2)))
                   else
                     speak_text (PyStr AI_UNAVAILABLE_PROMPT) (current_gtts_lang s) env
                       (print ''Gemini AI is not configured. Cannot get AI response.'' w1))
             else
               (case dict_get speech_result ''error'' of
                  Inl e \<Rightarrow> (Some e, w)
                | Inr error \<Rightarrow>
                    if truthy error then
                      (let w1 = print (''Speech Recognition Info: '' @ py_str error) w
                       in if error = PyStr ''Unable to recognize speech.'' then
                            speak_text (PyStr RETRY_PROMPT) (current_gtts_lang s) env w1
                          else if error = PyStr ''No speech detected'' then
                            speak_text (PyStr NO_SPEECH_PROMPT) (current_gtts_lang s) env w1
                          else (None, w1))
                    else (None, w))))
      else
        (None,
         print ''No speech was processed or an unexpected issue occurred with speech recognition.''
           w))"

datatype flow = Continue | Break

definition IDLE_PROMPT :: string where
  "IDLE_PROMPT =
     newline @ ''Press Enter to start speaking, 'c' to change language, or 'q' to quit: ''"

text \<open>
  Lines 240 to 267: a listening turn. \<^verbatim>\<open>r\<close> and \<^verbatim>\<open>mic\<close> were built by
  \<^verbatim>\<open>sr.Recognizer()\<close> and \<^verbatim>\<open>sr.Microphone()\<close>, so both pass the instance checks.
\<close>

definition listening_turn ::
  "gen_model option \<Rightarrow> turn_env \<Rightarrow> session \<Rightarrow> world \<Rightarrow> exn option \<times> world" where
  "listening_turn model env s w =
     (case recognize_speech_from_mic (Some (turn_recognizer env)) (Some (turn_microphone env))
             (current_speech_lang_code s) (current_speech_lang_name s) w of
        (Inl e, w1) \<Rightarrow> (Some e, w1)
      | (Inr speech_result, w1) \<Rightarrow> handle_speech_result model (turn_tts env) s speech_result w1)"

text \<open>
  Lines 226 to 267: one round of \<^verbatim>\<open>while True\<close>. \<open>Inl\<close> is an exception that leaves
  the loop; otherwise the round ends the loop (\<open>Break\<close>) or not, with the session
  variables as the round leaves them.
\<close>

definition loop_body ::
  "gen_model option \<Rightarrow> turn_env \<Rightarrow> session \<Rightarrow> string list \<Rightarrow> world
     \<Rightarrow> (exn + flow \<times> session) \<times> string list \<times> world" where
  "loop_body model env s stdin w =
     (case input IDLE_PROMPT stdin w of
        (Inl e, stdin1, w1) \<Rightarrow> (Inl e, stdin1, w1)
      | (Inr line, stdin1, w1) \<Rightarrow>
          (let user_choice = lower (strip line)
           in if user_choice = ''q'' then
                (Inr (Break, s), stdin1, print ''Exiting assistant. Goodbye!'' w1)
              else if user_choice = ''c'' then
                (case select_language stdin1 w1 of
                   (Inl e, stdin2, w2) \<Rightarrow> (Inl e, stdin2, w2)
                 | (Inr selected_lang_info, stdin2, w2) \<Rightarrow>
                     (let s' = session_of selected_lang_info
                      in (Inr (Continue, s'), stdin2,
                          print (newline @ ''Language changed to: '' @ current_speech_lang_name s'
                                   @ '' (Code: '' @ current_speech_lang_code s' @ '')'') w2)))
              else
                (case listening_turn model env s w1 of
                   (Some e, w2) \<Rightarrow> (Inl e, stdin1, w2)
                 | (None, w2) \<Rightarrow> (Inr (Continue, s), stdin1, w2))))"

text \<open>
  A round that does not raise and does not end the loop has read at least the line of
  the idle prompt, so the loop below ends with the input.
\<close>

lemma select_language_loop_input:
  "select_language_loop stdin w =
     (case input ''Enter the number of your choice: '' stdin w of
        (Inl e, stdin1, w1) \<Rightarrow> (Inl e, stdin1, w1)
      | (Inr choice, stdin1, w1) \<Rightarrow>
          (case map_of SUPPORTED_LANGUAGES choice of
             Some lang_info \<Rightarrow> (Inr lang_info, stdin1, w1)
           | None \<Rightarrow> select_language_loop stdin1 (print ''Invalid choice. Please try again.'' w1)))"
  by (cases stdin) (simp_all add: input_def Let_def)

lemma select_language_loop_stdin:
  "length (fst (snd (select_language_loop stdin w))) \<le> length stdin"
  by (induction stdin arbitrary: w) (auto simp: Let_def le_SucI split: option.splits)

lemma select_language_stdin:
  "select_language stdin w = (r, stdin', w') \<Longrightarrow> length stdin' \<le> length stdin"
  by (metis fst_conv snd_conv select_language_def select_language_loop_stdin)

lemma loop_body_stdin:
  "loop_body model env s stdin w = (Inr b, stdin', w') \<Longrightarrow> length stdin' < length stdin"
  by (auto simp: loop_body_def input_def Let_def le_imp_less_Suc
      split: list.splits if_splits prod.splits sum.splits option.splits
      dest: select_language_stdin)

text \<open>
  Lines 225 to 267, \<^verbatim>\<open>while True\<close>: round \<open>n\<close> meets the devices as \<open>envs n\<close> describes
  them. The result is the exception that ended the loop (\<open>None\<close> after \<^verbatim>\<open>break\<close>) and
  the session variables as each round found them, in order.
\<close>

function session_loop ::
  "gen_model option \<Rightarrow> (nat \<Rightarrow> turn_env) \<Rightarrow> nat \<Rightarrow> session \<Rightarrow> string list \<Rightarrow> world
     \<Rightarrow> (exn option \<times> session list) \<times> string list \<times> world" where
  "session_loop model envs n s stdin w =
     (case loop_body model (envs n) s stdin w of
        (Inl e, stdin1, w1) \<Rightarrow> ((Some e, [s]), stdin1, w1)
      | (Inr (Break, s'), stdin1, w1) \<Rightarrow> ((None, [s]), stdin1, w1)
      | (Inr (Continue, s'), stdin1, w1) \<Rightarrow>
          (case session_loop model envs (Suc n) s' stdin1 w1 of
             ((r, visited), rest) \<Rightarrow> ((r, s # visited), rest)))"
  by pat_completeness auto
termination
  by (relation "measure (\<lambda>(model, envs, n, s, stdin, w). length stdin)")
     (auto dest: loop_body_stdin [OF sym])

declare session_loop.simps [simp del]

text \<open>
  What the mixer does in the \<^verbatim>\<open>finally\<close> block of the program (lines 273 and 274).
\<close>

record exit_env =
  exit_get_init :: "bool outcome"
  exit_mixer_quit :: "unit outcome"

text \<open>Lines 271 to 275: the exception that the block raises, if any.\<close>

definition main_finally :: "exit_env \<Rightarrow> world \<Rightarrow> exn option \<times> world" where
  "main_finally up w =
     (case exit_get_init up of
        Raises e \<Rightarrow> (Some e, w)
      | Returns initialised \<Rightarrow>
          if initialised then
            (case exit_mixer_quit up of
               Raises e \<Rightarrow> (Some e, emit MixerQuit w)
             | Returns u \<Rightarrow> (None, print ''Application closed.'' (emit MixerQuit w)))
          else (None, print ''Application closed.'' w))"

text \<open>
  Lines 217 to 275: the first selection, the loop, and the \<^verbatim>\<open>finally\<close> block of the
  program. The selection of line 218 stands before the \<^verbatim>\<open>try\<close>, so an exception there
  ends the program at once. An exception of the \<^verbatim>\<open>finally\<close> block replaces the one
  that ended the loop. Lines 200 to 215 (the banner and the construction of the
  devices) come before and are not modelled.
\<close>

definition main_program ::
  "gen_model option \<Rightarrow> (nat \<Rightarrow> turn_env) \<Rightarrow> exit_env \<Rightarrow> string list \<Rightarrow> world
     \<Rightarrow> (exn option \<times> session list) \<times> string list \<times> world" where
  "main_program model envs up stdin w =
     (case select_language stdin w of
        (Inl e, stdin1, w1) \<Rightarrow> ((Some e, []), stdin1, w1)
      | (Inr selected_lang_info, stdin1, w1) \<Rightarrow>
          (let s = session_of selected_lang_info;
               w2 = print (newline @ ''Selected language: '' @ current_speech_lang_name s
                             @ '' (Code: '' @ current_speech_lang_code s @ '')'') w1
           in case session_loop model envs 0 s stdin1 w2 of
                ((ended, visited), stdin2, w3) \<Rightarrow>
                  (case main_finally up w3 of
                     (Some e, w4) \<Rightarrow> ((Some e, visited), stdin2, w4)
                   | (None, w4) \<Rightarrow> ((ended, visited), stdin2, w4))))"

section \<open>Observations on a trace\<close>

text \<open>The prompts sent to the remote model, in order.\<close>

fun service_calls :: "event list \<Rightarrow> string list" where
  "service_calls [] = []"
| "service_calls (GenerateContent p # es) = p # service_calls es"
| "service_calls (e # es) = service_calls es"

text \<open>The texts handed to the synthesiser, each with its language, in order.\<close>

fun spoken :: "event list \<Rightarrow> (string \<times> string) list" where
  "spoken [] = []"
| "spoken (GTTS t l # es) = (t, l) # spoken es"
| "spoken (e # es) = spoken es"

text \<open>The lines printed, in order.\<close>

fun printed :: "event list \<Rightarrow> string list" where
  "printed [] = []"
| "printed (Print t # es) = t # printed es"
| "printed (e # es) = printed es"

text \<open>The log records of a level, in order.\<close>

fun logged :: "level \<Rightarrow> event list \<Rightarrow> string list" where
  "logged l [] = []"
| "logged l (Log l' t # es) = (if l' = l then t # logged l es else logged l es)"
| "logged l (e # es) = logged l es"

text \<open>The pauses taken, in milliseconds, in order.\<close>

fun sleeps :: "event list \<Rightarrow> nat list" where
  "sleeps [] = []"
| "sleeps (Sleep ms # es) = ms # sleeps es"
| "sleeps (e # es) = sleeps es"

text \<open>The calls of \<^verbatim>\<open>os.remove\<close>, in order.\<close>

fun removals :: "event list \<Rightarrow> string list" where
  "removals [] = []"
| "removals (Remove f # es) = f # removals es"
| "removals (e # es) = removals es"


text \<open>The registry entries, as values of the session variables.\<close>

definition registry_sessions :: "session list" where
  "registry_sessions = map (\<lambda>(key, lang_info). session_of lang_info) SUPPORTED_LANGUAGES"

section \<open>Concrete scenarios\<close>

definition world0 :: world where
  "world0 = \<lparr>trace = [], file_exists = False\<rparr>"

text \<open>A model that answers every prompt with a plain text.\<close>

definition echo_model :: gen_model where
  "echo_model prompt =
     Returns \<lparr>prompt_feedback = None, text_value = Attr (''You said: '' @ prompt), parts = []\<rparr>"

text \<open>A model whose answer has no primary text and one part with an empty text.\<close>

definition blank_part_model :: gen_model where
  "blank_part_model prompt =
     Returns \<lparr>prompt_feedback = None, text_value = NoAttr, parts = [Some []]\<rparr>"

text \<open>Devices that work: the clip plays for two polls and the file is free at once.\<close>

definition working_tts :: tts_env where
  "working_tts =
     \<lparr>gtts_init = Returns (), gtts_save = Returns (), save_leaves_file = True,
      mixer_init = Returns (), music_load = Returns (), music_play = Returns (),
      playing_polls = 2, get_init = Returns True, music_stop = Returns (),
      mixer_quit = Returns (), path_exists = Returns (), held_polls = 0,
      os_remove = Returns ()\<rparr>"

text \<open>The mixer closes without trouble when the program ends.\<close>

definition clean_exit :: exit_env where
  "clean_exit = \<lparr>exit_get_init = Returns True, exit_mixer_quit = Returns ()\<rparr>"

text \<open>
  An installation without the mixer module: every call into the mixer raises, the one
  of line 122 inside the \<^verbatim>\<open>try\<close> block and the one of line 143 outside.
\<close>

definition no_mixer_tts :: tts_env where
  "no_mixer_tts =
     working_tts
       \<lparr>mixer_init := Raises (OtherError ''mixer module not available''),
        get_init := Raises (OtherError ''mixer module not available'')\<rparr>"

text \<open>Devices where the file is still locked when \<^verbatim>\<open>os.remove\<close> is called.\<close>

definition locked_tts :: tts_env where
  "locked_tts =
     working_tts
       \<lparr>os_remove :=
          Raises (PermissionError ''[WinError 32] The file is being used by another process'')\<rparr>"

text \<open>Devices where the file cannot be deleted for another reason.\<close>

definition readonly_tts :: tts_env where
  "readonly_tts =
     working_tts\<lparr>os_remove := Raises (OtherError ''[Errno 30] Read-only file system'')\<rparr>"

text \<open>A model that is not blocked, whose primary text cannot be read, and that has a part.\<close>

definition unreadable_model :: gen_model where
  "unreadable_model prompt =
     Returns \<lparr>prompt_feedback = None, text_value = AttrRaises (ValueError ''no valid part''),
              parts = [Some ''Hello'']\<rparr>"

text \<open>A model whose answer is blocked, and whose primary text cannot be read.\<close>

definition blocked_model :: gen_model where
  "blocked_model prompt =
     Returns \<lparr>prompt_feedback = Some (PromptFeedback (Some ''SAFETY'')),
              text_value = AttrRaises (ValueError ''no valid part''), parts = []\<rparr>"

text \<open>A model whose answer has an empty primary text and three parts, one without text.\<close>

definition parts_model :: gen_model where
  "parts_model prompt =
     Returns \<lparr>prompt_feedback = Some (PromptFeedback None), text_value = Attr [],
              parts = [Some ''Hello'', None, Some ''world '']\<rparr>"

text \<open>A model whose answer has nothing to read.\<close>

definition empty_model :: gen_model where
  "empty_model prompt =
     Returns \<lparr>prompt_feedback = None, text_value = NoAttr, parts = [None]\<rparr>"

text \<open>Devices where the playback subsystem holds the file during two polls.\<close>

definition held_twice_tts :: tts_env where
  "held_twice_tts = working_tts\<lparr>held_polls := 2\<rparr>"

text \<open>Devices where the playback subsystem holds the file during three polls.\<close>

definition held_tts :: tts_env where
  "held_tts = working_tts\<lparr>held_polls := 3\<rparr>"

text \<open>Devices where the synthesiser cannot reach its service.\<close>

definition offline_tts :: tts_env where
  "offline_tts = working_tts\<lparr>gtts_save := Raises (OtherError ''Failed to connect'')\<rparr>"

text \<open>A microphone that opens and closes.\<close>

definition working_microphone :: microphone where
  "working_microphone = \<lparr>mic_enter = Returns (), mic_exit = Returns ()\<rparr>"

text \<open>A microphone whose device cannot be opened.\<close>

definition broken_microphone :: microphone where
  "broken_microphone =
     \<lparr>mic_enter =
        Raises (OtherError ''[Errno -9996] Invalid input device (no default output device)''),
      mic_exit = Returns ()\<rparr>"

text \<open>
  A microphone whose device did not open, which shows when the block is left: the
  calibration fails, and closing the stream that is not there raises.
\<close>

definition stuck_microphone :: microphone where
  "stuck_microphone =
     \<lparr>mic_enter = Returns (),
      mic_exit = Raises (OtherError ''NoneType object has no attribute close'')\<rparr>"

definition uncalibrated_recognizer :: recognizer where
  "uncalibrated_recognizer =
     \<lparr>adjust_for_ambient_noise =
        Raises (OtherError ''Audio source must be entered before adjusting''),
      listen = Returns 0, recognize_google = Returns ''hello''\<rparr>"

text \<open>A round in which the user says hello.\<close>

definition hello_env :: turn_env where
  "hello_env =
     \<lparr>turn_recognizer = \<lparr>adjust_for_ambient_noise = Returns (), listen = Returns 0,
                          recognize_google = Returns ''hello''\<rparr>,
      turn_microphone = working_microphone, turn_tts = working_tts\<rparr>"




text \<open>A round in which the microphone has been unplugged.\<close>

definition unplugged_env :: turn_env where
  "unplugged_env = hello_env\<lparr>turn_microphone := broken_microphone\<rparr>"

text \<open>Sessions in which every round is the same.\<close>

definition steady_envs :: "nat \<Rightarrow> turn_env" where
  "steady_envs n = hello_env"

definition unplugged_envs :: "nat \<Rightarrow> turn_env" where
  "unplugged_envs n = unplugged_env"

text \<open>The values of the session variables for the three registry entries.\<close>

definition english :: session where
  "english =
     \<lparr>current_speech_lang_code = ''en-US'', current_speech_lang_name = ''English (US)'',
      current_gtts_lang = ''en''\<rparr>"

definition hindi :: session where
  "hindi =
     \<lparr>current_speech_lang_code = ''hi-IN'', current_speech_lang_name = ''Hindi (India)'',
      current_gtts_lang = ''hi''\<rparr>"

definition kannada :: session where
  "kannada =
     \<lparr>current_speech_lang_code = ''kn-IN'', current_speech_lang_name = ''Kannada (India)'',
      current_gtts_lang = ''kn''\<rparr>"

section \<open>Basic facts\<close>

lemma trace_emit [simp]: "trace (emit e w) = trace w @ [e]"
  by (simp add: emit_def)

lemma trace_print [simp]: "trace (print s w) = trace w @ [Print s]"
  by (simp add: print_def)

lemma trace_logger [simp]: "trace (logger l s w) = trace w @ [Log l s]"
  by (simp add: logger_def)

lemma file_exists_emit [simp]: "file_exists (emit e w) = file_exists w"
  by (simp add: emit_def)

lemma file_exists_print [simp]: "file_exists (print s w) = file_exists w"
  by (simp add: print_def)

lemma file_exists_logger [simp]: "file_exists (logger l s w) = file_exists w"
  by (simp add: logger_def)

lemma service_calls_append [simp]:
  "service_calls (xs @ ys) = service_calls xs @ service_calls ys"
  by (induction xs rule: service_calls.induct) simp_all

lemma spoken_append [simp]: "spoken (xs @ ys) = spoken xs @ spoken ys"
  by (induction xs rule: spoken.induct) simp_all

lemma printed_append [simp]: "printed (xs @ ys) = printed xs @ printed ys"
  by (induction xs rule: printed.induct) simp_all

lemma logged_append [simp]: "logged l (xs @ ys) = logged l xs @ logged l ys"
  by (induction l xs rule: logged.induct) simp_all

lemma sleeps_append [simp]: "sleeps (xs @ ys) = sleeps xs @ sleeps ys"
  by (induction xs rule: sleeps.induct) simp_all

section \<open>The response adapter\<close>

lemma service_calls_read_response [simp]:
  "service_calls (trace (snd (read_response r w))) = service_calls (trace w)"
  by (simp add: read_response_def parts_fallback_def split: option.splits text_attr.splits)

text \<open>
  Claim C1, as the code has it. With an initialised model handle, the empty prompt gets
  the canned reply, and the remote service is not called. The test of line 167 is
  \<^verbatim>\<open>not prompt\<close>, which only the empty string passes: every other prompt, also one
  of whitespace only, is sent to the remote service.
\<close>

theorem C1_empty_prompt_short_circuits:
  "get_ai_response (Some m) [] w
     = (NO_INPUT_REPLY, logger INFO ''Received empty prompt for AI response.'' w)
   \<and> service_calls (trace (snd (get_ai_response (Some m) [] w))) = service_calls (trace w)
   \<and> service_calls (trace (snd (get_ai_response (Some m) (c # cs) w)))
       = service_calls (trace w) @ [c # cs]"
  by (simp add: get_ai_response_def Let_def split_beta split: outcome.splits sum.splits)

text \<open>
  Claim C1, as the specification states it, fails: a prompt of two spaces does not get
  the canned reply and is sent to the remote service; and without a model handle the
  empty prompt gets the reply of the missing model, not the canned one.
\<close>

theorem C1_whitespace_prompt_counterexample:
  "fst (get_ai_response (Some echo_model) ''  '' world0) \<noteq> NO_INPUT_REPLY
   \<and> service_calls (trace (snd (get_ai_response (Some echo_model) ''  '' world0))) = [''  '']
   \<and> fst (get_ai_response None [] world0) \<noteq> NO_INPUT_REPLY"
  by (simp add: get_ai_response_def Let_def echo_model_def read_response_def blocked_reason_def
      world0_def strip_def py_isspace_def NO_INPUT_REPLY_def UNAVAILABLE_REPLY_def)

lemma all_text_parts_nonempty: "all_text_parts r \<noteq> [] \<Longrightarrow> parts r \<noteq> []"
  by (auto simp: all_text_parts_def List.map_filter_def)

text \<open>
  Claim C5, as the code has it. When the service answers a non-empty prompt with a
  response, one of five cases applies:
  \<^item> a blocked response gives the blocked reply with the name of the reason, whatever
    the text fields hold (also when reading the primary text would raise);
  \<^item> a response that is not blocked and whose primary text cannot be read (the read
    raises an exception other than \<^verbatim>\<open>AttributeError\<close>) gives the reply for a
    failure, whatever the parts hold;
  \<^item> a response that is not blocked and has a non-empty primary text gives that text,
    stripped of leading and trailing whitespace;
  \<^item> a response that is not blocked, whose primary text is absent or empty, and of
    which some part has a text attribute, gives the texts of those parts, in order,
    joined by single spaces and then stripped;
  \<^item> a response that is not blocked, whose primary text is absent or empty, and of
    which no part has a text attribute, gives the reply for an empty response.
  The tests for emptiness come before the stripping, so the text returned can be the
  empty string.
\<close>

theorem C5_reply_from_response:
  assumes "m (c # cs) = Returns r"
  shows "(\<forall>reason. blocked_reason r = Some reason \<longrightarrow>
            fst (get_ai_response (Some m) (c # cs) w) = blocked_reply reason)
       \<and> (\<forall>e. blocked_reason r = None \<and> text_value r = AttrRaises e \<longrightarrow>
            fst (get_ai_response (Some m) (c # cs) w) = ERROR_REPLY)
       \<and> (\<forall>t. blocked_reason r = None \<and> text_value r = Attr t \<and> t \<noteq> [] \<longrightarrow>
            fst (get_ai_response (Some m) (c # cs) w) = strip t)
       \<and> (blocked_reason r = None \<and> (text_value r = NoAttr \<or> text_value r = Attr [])
            \<and> all_text_parts r \<noteq> [] \<longrightarrow>
            fst (get_ai_response (Some m) (c # cs) w) = strip (join '' '' (all_text_parts r)))
       \<and> (blocked_reason r = None \<and> (text_value r = NoAttr \<or> text_value r = Attr [])
            \<and> all_text_parts r = [] \<longrightarrow>
            fst (get_ai_response (Some m) (c # cs) w) = UNUSUAL_REPLY)"
  using assms all_text_parts_nonempty [of r]
  by (auto simp: get_ai_response_def Let_def read_response_def parts_fallback_def)

theorem C5_reply_from_response_witness:
  "blocked_model ''hi'' =
     Returns \<lparr>prompt_feedback = Some (PromptFeedback (Some ''SAFETY'')),
              text_value = AttrRaises (ValueError ''no valid part''), parts = []\<rparr>
   \<and> fst (get_ai_response (Some blocked_model) ''hi'' world0) = blocked_reply ''SAFETY''
   \<and> unreadable_model ''hi'' =
       Returns \<lparr>prompt_feedback = None, text_value = AttrRaises (ValueError ''no valid part''),
                parts = [Some ''Hello'']\<rparr>
   \<and> fst (get_ai_response (Some unreadable_model) ''hi'' world0) = ERROR_REPLY
   \<and> fst (get_ai_response (Some echo_model) ''hi'' world0) = ''You said: hi''
   \<and> fst (get_ai_response (Some parts_model) ''hi'' world0) = ''Hello world''
   \<and> fst (get_ai_response (Some empty_model) ''hi'' world0) = UNUSUAL_REPLY"
  using C5_reply_from_response [of blocked_model "CHR ''h''" "''i''" _ world0]
        C5_reply_from_response [of unreadable_model "CHR ''h''" "''i''" _ world0]
        C5_reply_from_response [of echo_model "CHR ''h''" "''i''" _ world0]
        C5_reply_from_response [of parts_model "CHR ''h''" "''i''" _ world0]
        C5_reply_from_response [of empty_model "CHR ''h''" "''i''" _ world0]
  by (simp add: blocked_model_def unreadable_model_def echo_model_def parts_model_def
      empty_model_def blocked_reason_def all_text_parts_def List.map_filter_def strip_def
      py_isspace_def)

text \<open>
  Claim C5, as the specification states it, fails: a response without primary text whose
  only part has an empty text yields no text, and the adapter returns the empty string
  instead of the reply for an empty response.
\<close>

theorem C5_blank_part_counterexample:
  "fst (get_ai_response (Some blank_part_model) ''hi'' world0) = []
   \<and> fst (get_ai_response (Some blank_part_model) ''hi'' world0) \<noteq> UNUSUAL_REPLY"
  by (simp add: get_ai_response_def Let_def blank_part_model_def read_response_def
      parts_fallback_def all_text_parts_def List.map_filter_def blocked_reason_def
      strip_def UNUSUAL_REPLY_def)

section \<open>Speech output\<close>

lemma speak_except_catches [simp]: "fst (speak_except l e w) = None"
  by (simp add: speak_except_def Let_def split: exn.splits)

lemma remove_except_catches [simp]: "fst (remove_except e w) = None"
  by (simp add: remove_except_def split: exn.splits)

lemma speak_try_except_catches [simp]: "fst (speak_try_except t l env w) = None"
  by (simp add: speak_try_except_def split: prod.splits option.splits)

text \<open>What the handlers of lines 157 to 160 write to the log.\<close>

lemma remove_except_logs:
  "remove_except (PermissionError m) w
     = (None, logger WARNING ''Permission denied to delete temp_speech.mp3.'' w)"
  "\<forall>m. e \<noteq> PermissionError m \<Longrightarrow>
     remove_except e w
       = (None, logger ERROR (''Error deleting temp file temp_speech.mp3: '' @ exn_str e) w)"
  by (cases e; simp add: remove_except_def temp_audio_file_def)+

text \<open>Lines 143 to 145, outcome by outcome.\<close>

lemma stop_mixer_outcomes:
  "get_init env = Raises e \<Longrightarrow> stop_mixer env w = (Some e, w)"
  "get_init env = Returns False \<Longrightarrow> stop_mixer env w = (None, w)"
  "get_init env = Returns True \<Longrightarrow> music_stop env = Raises e \<Longrightarrow>
     stop_mixer env w = (Some e, emit MusicStop w)"
  "get_init env = Returns True \<Longrightarrow> music_stop env = Returns () \<Longrightarrow>
   mixer_quit env = Raises e \<Longrightarrow>
     stop_mixer env w = (Some e, emit MixerQuit (emit MusicStop w))"
  "get_init env = Returns True \<Longrightarrow> music_stop env = Returns () \<Longrightarrow>
   mixer_quit env = Returns () \<Longrightarrow>
     stop_mixer env w = (None, emit MixerQuit (emit MusicStop w))"
  by (simp_all add: stop_mixer_def)

text \<open>
  The \<^verbatim>\<open>finally\<close> block raises exactly when one of the calls of lines 143 to 146
  raises, and then so does \<open>speak_text\<close> on a text that passes the guard of line 111.
\<close>

lemma stop_mixer_returns:
  "cleanup_calls_return env \<Longrightarrow> fst (stop_mixer env w) = None"
  by (auto simp: cleanup_calls_return_def stop_mixer_def split: outcome.splits if_splits)

lemma remove_temp_file_returns:
  "cleanup_calls_return env \<Longrightarrow> fst (remove_temp_file env w) = None"
  by (auto simp: cleanup_calls_return_def remove_temp_file_def
      split: outcome.splits if_splits prod.splits option.splits)

lemma speak_finally_returns:
  "cleanup_calls_return env \<Longrightarrow> fst (speak_finally env w) = None"
  using stop_mixer_returns [of env w]
  by (cases "stop_mixer env w") (simp add: speak_finally_def remove_temp_file_returns)

lemma speak_finally_raises:
  assumes "\<not> cleanup_calls_return env"
  shows "fst (speak_finally env w) \<noteq> None"
proof (cases "stop_mixer env w")
  case (Pair r w1)
  show ?thesis
  proof (cases r)
    case None
    with Pair have "cleanup_calls_return env \<or> (\<exists>e. path_exists env = Raises e)"
      by (cases "path_exists env")
         (auto simp: cleanup_calls_return_def stop_mixer_def split: outcome.splits if_splits)
    with assms obtain e where "path_exists env = Raises e"
      by auto
    with Pair None show ?thesis
      by (simp add: speak_finally_def remove_temp_file_def)
  next
    case (Some e)
    with Pair show ?thesis
      by (simp add: speak_finally_def)
  qed
qed

lemma speak_text_returns:
  "cleanup_calls_return env \<Longrightarrow> fst (speak_text t l env w) = None"
  by (simp add: speak_text_def split_beta speak_finally_returns split: option.splits)

lemma speak_text_raises:
  assumes "\<not> cleanup_calls_return env"
  shows "fst (speak_text (PyStr (c # cs)) l env w) \<noteq> None"
  using speak_finally_raises [OF assms, of "snd (speak_try_except (c # cs) l env w)"]
  by (auto simp: speak_text_def split_beta split: option.splits)

lemma speak_text_returns_iff:
  assumes "t \<noteq> []"
  shows "(fst (speak_text (PyStr t) l env w) = None) = cleanup_calls_return env"
proof (cases t)
  case Nil
  with assms show ?thesis by simp
next
  case (Cons c cs)
  show ?thesis
    unfolding Cons
    using speak_text_returns [of env "PyStr (c # cs)" l w] speak_text_raises [of env c cs l w]
    by blast
qed

lemma speak_text_skips:
  "t = PyStr [] \<or> \<not> isinstance_str t \<Longrightarrow>
     speak_text t l env w
       = (None, logger WARNING ''No valid text provided to speak. Skipping TTS.'' w)"
  by (cases t) (auto simp: speak_text_def)

lemma speak_text_finally:
  "speak_text (PyStr (c # cs)) l env w
     = (case speak_finally env (snd (speak_try_except (c # cs) l env w)) of
          (Some e, w3) \<Rightarrow> (Some e, w3)
        | (None, w3) \<Rightarrow> (None, w3))"
  by (simp add: speak_text_def split_beta split: option.splits)

text \<open>The deletion loop: up to three polls, a pause after each poll that finds the file held.\<close>

lemma remove_loop_released:
  "held < rounds \<Longrightarrow> os_remove env = Returns () \<Longrightarrow>
     fst (remove_loop rounds held env w) = None
     \<and> \<not> file_exists (snd (remove_loop rounds held env w))
     \<and> sleeps (trace (snd (remove_loop rounds held env w)))
         = sleeps (trace w) @ replicate held 100"
  by (induction rounds held env w rule: remove_loop.induct)
     (simp_all add: Let_def replicate_append_same)

lemma remove_loop_held:
  "rounds \<le> held \<Longrightarrow> file_exists w \<Longrightarrow>
     fst (remove_loop rounds held env w) = None
     \<and> file_exists (snd (remove_loop rounds held env w))
     \<and> sleeps (trace (snd (remove_loop rounds held env w)))
         = sleeps (trace w) @ replicate rounds 100
     \<and> logged WARNING (trace (snd (remove_loop rounds held env w)))
         = logged WARNING (trace w)
             @ [''Could not delete temporary file: temp_speech.mp3. It might be in use.'']"
  by (induction rounds held env w rule: remove_loop.induct)
     (simp_all add: Let_def replicate_append_same temp_audio_file_def)

lemma remove_temp_file_released:
  assumes "path_exists env = Returns ()" "held_polls env < 3" "os_remove env = Returns ()"
  shows "\<not> file_exists (snd (remove_temp_file env w))"
    and "file_exists w \<Longrightarrow> sleeps (trace (snd (remove_temp_file env w)))
           = sleeps (trace w) @ replicate (held_polls env) 100"
  using remove_loop_released [OF assms(2,3), of w] assms(1)
  by (auto simp: remove_temp_file_def split: prod.splits option.splits)

lemma remove_temp_file_held:
  assumes "path_exists env = Returns ()" "3 \<le> held_polls env" "file_exists w"
  shows "fst (remove_temp_file env w) = None
     \<and> file_exists (snd (remove_temp_file env w))
     \<and> sleeps (trace (snd (remove_temp_file env w))) = sleeps (trace w) @ [100, 100, 100]
     \<and> logged WARNING (trace (snd (remove_temp_file env w)))
         = logged WARNING (trace w)
             @ [''Could not delete temporary file: temp_speech.mp3. It might be in use.'']"
  using remove_loop_held [OF assms(2,3), of env] assms(1,3)
  by (auto simp: remove_temp_file_def numeral_3_eq_3 split: prod.splits option.splits)

lemma file_exists_stop_mixer [simp]:
  "file_exists (snd (stop_mixer env w)) = file_exists w"
  by (simp add: stop_mixer_def split: outcome.splits)

lemma sleeps_stop_mixer [simp]:
  "sleeps (trace (snd (stop_mixer env w))) = sleeps (trace w)"
  by (simp add: stop_mixer_def split: outcome.splits)

lemma logged_stop_mixer [simp]:
  "logged l (trace (snd (stop_mixer env w))) = logged l (trace w)"
  by (simp add: stop_mixer_def split: outcome.splits)

lemma speak_finally_cleans:
  "cleanup_calls_return env \<Longrightarrow>
     speak_finally env w = remove_temp_file env (snd (stop_mixer env w))"
  using stop_mixer_returns [of env w]
  by (cases "stop_mixer env w") (simp add: speak_finally_def)

lemma working_tts_returns: "cleanup_calls_return working_tts"
  by (simp add: cleanup_calls_return_def working_tts_def)

lemma cleanup_path_exists: "cleanup_calls_return env \<Longrightarrow> path_exists env = Returns ()"
  by (auto simp: cleanup_calls_return_def split: outcome.splits)

text \<open>
  The cleanup when the calls of lines 143 to 146 return. For every call of
  \<open>speak_text\<close> with a non-empty string, whatever the synthesiser and the playback
  answer, the \<^verbatim>\<open>finally\<close> block runs on the world that the \<^verbatim>\<open>try\<close> block and its
  handlers left, and the call returns. When the playback subsystem reports the file
  free at one of the three polls and the deletion succeeds, the file is not on disk
  after the call. On a file that is on disk, the block pauses 0.1 seconds after each
  poll that finds the file in use and deletes at the first poll that finds it free;
  when all three polls find the file in use, it pauses three times, logs the warning
  and leaves the file.
\<close>

lemma cleanup_after_speech:
  assumes "cleanup_calls_return env"
  shows "fst (speak_text (PyStr (c # cs)) l env w) = None"
    and "snd (speak_text (PyStr (c # cs)) l env w)
           = snd (speak_finally env (snd (speak_try_except (c # cs) l env w)))"
    and "held_polls env < 3 \<Longrightarrow> os_remove env = Returns () \<Longrightarrow>
           \<not> file_exists (snd (speak_text (PyStr (c # cs)) l env w))"
    and "file_exists w2 \<Longrightarrow> held_polls env < 3 \<Longrightarrow> os_remove env = Returns () \<Longrightarrow>
           sleeps (trace (snd (speak_finally env w2)))
             = sleeps (trace w2) @ replicate (held_polls env) 100"
    and "file_exists w2 \<Longrightarrow> 3 \<le> held_polls env \<Longrightarrow>
           file_exists (snd (speak_finally env w2))
           \<and> sleeps (trace (snd (speak_finally env w2))) = sleeps (trace w2) @ [100, 100, 100]
           \<and> logged WARNING (trace (snd (speak_finally env w2)))
               = logged WARNING (trace w2)
                   @ [''Could not delete temporary file: temp_speech.mp3. It might be in use.'']"
proof -
  note path = cleanup_path_exists [OF assms]
  show "fst (speak_text (PyStr (c # cs)) l env w) = None"
    using assms by (rule speak_text_returns)
  show final: "snd (speak_text (PyStr (c # cs)) l env w)
           = snd (speak_finally env (snd (speak_try_except (c # cs) l env w)))"
    by (simp add: speak_text_finally split_beta split: option.splits)
  show "\<not> file_exists (snd (speak_text (PyStr (c # cs)) l env w))"
    if "held_polls env < 3" "os_remove env = Returns ()"
    using remove_temp_file_released(1) [OF path that]
    by (simp add: final speak_finally_cleans [OF assms])
  show "sleeps (trace (snd (speak_finally env w2)))
          = sleeps (trace w2) @ replicate (held_polls env) 100"
    if "file_exists w2" "held_polls env < 3" "os_remove env = Returns ()"
    using remove_temp_file_released(2) [OF path that(2,3), of "snd (stop_mixer env w2)"] that(1)
    by (simp add: speak_finally_cleans [OF assms])
  show "file_exists (snd (speak_finally env w2))
        \<and> sleeps (trace (snd (speak_finally env w2))) = sleeps (trace w2) @ [100, 100, 100]
        \<and> logged WARNING (trace (snd (speak_finally env w2)))
            = logged WARNING (trace w2)
                @ [''Could not delete temporary file: temp_speech.mp3. It might be in use.'']"
    if "file_exists w2" "3 \<le> held_polls env"
    using remove_temp_file_held [OF path that(2), of "snd (stop_mixer env w2)"] that(1)
    by (simp add: speak_finally_cleans [OF assms])
qed

text \<open>
  Three runs on a clean disk: a backend that reports the file in use at two polls and
  then free, one that reports it in use at all three polls, and a synthesiser that
  cannot reach its service.
\<close>

lemma cleanup_examples:
  "\<not> file_exists (snd (speak_text (PyStr ''hello'') ''en'' held_twice_tts world0))
   \<and> sleeps (trace (snd (speak_text (PyStr ''hello'') ''en'' held_twice_tts world0)))
       = [500, 100, 100]
   \<and> file_exists (snd (speak_text (PyStr ''hello'') ''en'' held_tts world0))
   \<and> sleeps (trace (snd (speak_text (PyStr ''hello'') ''en'' held_tts world0)))
       = [500, 100, 100, 100]
   \<and> fst (speak_text (PyStr ''hello'') ''en'' offline_tts world0) = None
   \<and> \<not> file_exists (snd (speak_text (PyStr ''hello'') ''en'' offline_tts world0))
   \<and> logged ERROR (trace (snd (speak_text (PyStr ''hello'') ''en'' offline_tts world0)))
       = [''TTS/playback error: Failed to connect'']"
  by code_simp

text \<open>
  Claim C2 at the inputs where the code departs from it. When the file is still locked
  at the moment of \<^verbatim>\<open>os.remove\<close>, the deletion is tried once: the loop of line 149
  repeats only while the mixer answers that it is initialised and busy, and an
  \<^verbatim>\<open>os.remove\<close> that raises leaves the loop for the handler of line 157. No pause of
  0.1 seconds is taken, one warning is logged and the file stays on disk. And when a
  call of lines 143 to 145 raises, the block ends before the deletion: the file stays
  on disk and \<^verbatim>\<open>os.remove\<close> is never called.
\<close>

theorem C2_locked_file_not_retried:
  "fst (speak_text (PyStr ''hello'') ''en'' locked_tts world0) = None
   \<and> file_exists (snd (speak_text (PyStr ''hello'') ''en'' locked_tts world0))
   \<and> removals (trace (snd (speak_text (PyStr ''hello'') ''en'' locked_tts world0)))
       = [''temp_speech.mp3'']
   \<and> sleeps (trace (snd (speak_text (PyStr ''hello'') ''en'' locked_tts world0))) = [500]
   \<and> logged WARNING (trace (snd (speak_text (PyStr ''hello'') ''en'' locked_tts world0)))
       = [''Permission denied to delete temp_speech.mp3.'']
   \<and> file_exists (snd (speak_text (PyStr ''hello'') ''en'' no_mixer_tts world0))
   \<and> removals (trace (snd (speak_text (PyStr ''hello'') ''en'' no_mixer_tts world0))) = []"
  by code_simp

text \<open>The text of these runs passes the guard of line 111, so the \<^verbatim>\<open>try\<close> statement runs.\<close>

theorem C2_locked_file_not_retried_witness:
  "truthy (PyStr ''hello'') \<and> isinstance_str (PyStr ''hello'')
   \<and> file_exists (snd (speak_text (PyStr ''hello'') ''en'' locked_tts world0))
   \<and> removals (trace (snd (speak_text (PyStr ''hello'') ''en'' locked_tts world0)))
       = [''temp_speech.mp3'']
   \<and> sleeps (trace (snd (speak_text (PyStr ''hello'') ''en'' locked_tts world0))) = [500]"
  using C2_locked_file_not_retried by simp

lemma logged_wait [simp]: "logged l (trace (wait_while_busy n w)) = logged l (trace w)"
  by (induction n arbitrary: w) simp_all

lemma printed_wait [simp]: "printed (trace (wait_while_busy n w)) = printed (trace w)"
  by (induction n arbitrary: w) simp_all

lemma speak_try_quiet:
  "logged ERROR (trace (snd (speak_try t l env w))) = logged ERROR (trace w)
   \<and> printed (trace (snd (speak_try t l env w))) = printed (trace w)"
  by (simp add: speak_try_def Let_def split: outcome.splits)

lemma speak_except_reports:
  "length (logged ERROR (trace (snd (speak_except l e w)))) = Suc (length (logged ERROR (trace w)))
   \<and> length (printed (trace (snd (speak_except l e w)))) = Suc (length (printed (trace w)))"
  by (simp add: speak_except_def Let_def split: exn.splits)

lemma speak_try_except_reports:
  assumes "fst (speak_try t l env w) = Some e"
  shows "length (logged ERROR (trace (snd (speak_try_except t l env w))))
           = Suc (length (logged ERROR (trace w)))
       \<and> length (printed (trace (snd (speak_try_except t l env w))))
           = Suc (length (printed (trace w)))"
proof (cases "speak_try t l env w")
  case (Pair r w1)
  with assms speak_try_quiet [of t l env w] speak_except_reports [of l e w1] show ?thesis
    by (simp add: speak_try_except_def)
qed

text \<open>
  Claim C6 at the input where the code departs from it. On an installation without
  the mixer module, \<^verbatim>\<open>pygame.mixer.init()\<close> raises inside the \<^verbatim>\<open>try\<close> block; the
  handler of line 139 logs and prints it. Then \<^verbatim>\<open>pygame.mixer.get_init()\<close> of line
  143, which stands in the \<^verbatim>\<open>finally\<close> block outside every \<^verbatim>\<open>try\<close>, raises again,
  and this exception leaves \<open>speak_text\<close>. An exception of the deletion, which stands
  inside the \<^verbatim>\<open>try\<close> of line 147, does not leave: the handler of line 159 logs it.
\<close>

theorem C6_cleanup_exception_escapes:
  "fst (speak_text (PyStr ''hello'') ''en'' no_mixer_tts world0)
     = Some (OtherError ''mixer module not available'')
   \<and> logged ERROR (trace (snd (speak_text (PyStr ''hello'') ''en'' no_mixer_tts world0)))
       = [''TTS/playback error: mixer module not available'']
   \<and> printed (trace (snd (speak_text (PyStr ''hello'') ''en'' no_mixer_tts world0)))
       = [''An error occurred during text-to-speech: mixer module not available'']
   \<and> fst (speak_text (PyStr ''hello'') ''en'' readonly_tts world0) = None
   \<and> logged ERROR (trace (snd (speak_text (PyStr ''hello'') ''en'' readonly_tts world0)))
       = [''Error deleting temp file temp_speech.mp3: [Errno 30] Read-only file system'']"
  by code_simp

text \<open>The text of this run passes the guard of line 111, so the \<^verbatim>\<open>try\<close> statement runs.\<close>

theorem C6_cleanup_exception_escapes_witness:
  "truthy (PyStr ''hello'') \<and> isinstance_str (PyStr ''hello'')
   \<and> fst (speak_text (PyStr ''hello'') ''en'' no_mixer_tts world0)
       = Some (OtherError ''mixer module not available'')"
  using C6_cleanup_exception_escapes by simp

section \<open>What speech output leaves on the trace\<close>

lemma spoken_wait [simp]: "spoken (trace (wait_while_busy n w)) = spoken (trace w)"
  by (induction n arbitrary: w) simp_all

lemma service_calls_wait [simp]:
  "service_calls (trace (wait_while_busy n w)) = service_calls (trace w)"
  by (induction n arbitrary: w) simp_all

lemma spoken_speak_try [simp]:
  "spoken (trace (snd (speak_try t l env w))) = spoken (trace w) @ [(t, l)]"
  by (simp add: speak_try_def Let_def split: outcome.splits)

lemma service_calls_speak_try [simp]:
  "service_calls (trace (snd (speak_try t l env w))) = service_calls (trace w)"
  by (simp add: speak_try_def Let_def split: outcome.splits)

lemma spoken_speak_except [simp]:
  "spoken (trace (snd (speak_except l e w))) = spoken (trace w)"
  by (simp add: speak_except_def Let_def split: exn.splits)

lemma service_calls_speak_except [simp]:
  "service_calls (trace (snd (speak_except l e w))) = service_calls (trace w)"
  by (simp add: speak_except_def Let_def split: exn.splits)

lemma spoken_remove_loop [simp]:
  "spoken (trace (snd (remove_loop k h env w))) = spoken (trace w)"
  by (induction k h env w rule: remove_loop.induct) (simp_all add: Let_def split: outcome.splits)

lemma service_calls_remove_loop [simp]:
  "service_calls (trace (snd (remove_loop k h env w))) = service_calls (trace w)"
  by (induction k h env w rule: remove_loop.induct) (simp_all add: Let_def split: outcome.splits)

lemma spoken_remove_except [simp]:
  "spoken (trace (snd (remove_except e w))) = spoken (trace w)"
  by (simp add: remove_except_def split: exn.splits)

lemma service_calls_remove_except [simp]:
  "service_calls (trace (snd (remove_except e w))) = service_calls (trace w)"
  by (simp add: remove_except_def split: exn.splits)

lemma spoken_stop_mixer [simp]:
  "spoken (trace (snd (stop_mixer env w))) = spoken (trace w)"
  by (simp add: stop_mixer_def split: outcome.splits)

lemma service_calls_stop_mixer [simp]:
  "service_calls (trace (snd (stop_mixer env w))) = service_calls (trace w)"
  by (simp add: stop_mixer_def split: outcome.splits)

lemma spoken_remove_temp_file [simp]:
  "spoken (trace (snd (remove_temp_file env w))) = spoken (trace w)"
  by (simp add: remove_temp_file_def split_beta split: outcome.splits option.splits)

lemma service_calls_remove_temp_file [simp]:
  "service_calls (trace (snd (remove_temp_file env w))) = service_calls (trace w)"
  by (simp add: remove_temp_file_def split_beta split: outcome.splits option.splits)

lemma spoken_speak_finally [simp]:
  "spoken (trace (snd (speak_finally env w))) = spoken (trace w)"
  by (simp add: speak_finally_def split_beta split: option.splits)

lemma service_calls_speak_finally [simp]:
  "service_calls (trace (snd (speak_finally env w))) = service_calls (trace w)"
  by (simp add: speak_finally_def split_beta split: option.splits)

lemma spoken_speak_try_except [simp]:
  "spoken (trace (snd (speak_try_except t l env w))) = spoken (trace w) @ [(t, l)]"
  by (simp add: speak_try_except_def split_beta split: option.splits)

lemma service_calls_speak_try_except [simp]:
  "service_calls (trace (snd (speak_try_except t l env w))) = service_calls (trace w)"
  by (simp add: speak_try_except_def split_beta split: option.splits)

lemma spoken_speak_text:
  "t \<noteq> [] \<Longrightarrow>
     spoken (trace (snd (speak_text (PyStr t) l env w))) = spoken (trace w) @ [(t, l)]"
  by (simp add: speak_text_def split_beta split: option.splits)

lemma service_calls_speak_text [simp]:
  "service_calls (trace (snd (speak_text t l env w))) = service_calls (trace w)"
  by (simp add: speak_text_def split_beta split: option.splits)

section \<open>Speech recognition\<close>

text \<open>The recognition step, outcome by outcome.\<close>

lemma recognize_audio_returns:
  "recognize_google r = Returns t \<Longrightarrow>
     recognize_audio r lc w
       = (result_dict (PyBool True) PyNone (PyStr t),
          emit (RecognizeGoogle lc) (print ''Processing your speech...'' w))"
  by (simp add: recognize_audio_def result_dict_def Let_def)



lemma capture_audio:
  "adjust_for_ambient_noise r = Returns () \<Longrightarrow> listen r = Returns audio \<Longrightarrow>
     capture r ln w
       = (Inr audio,
          emit Listen (print (''Listening in '' @ ln @ ''. Please start speaking...'')
            (emit AdjustForAmbientNoise
               (print (newline @ ''Adjusting for ambient noise, please wait...'') w))))"
  by (simp add: capture_def Let_def)


lemma recognize_with_microphone:
  "mic_enter mic = Returns () \<Longrightarrow> mic_exit mic = Returns () \<Longrightarrow>
     recognize_speech_from_mic (Some r) (Some mic) lc ln w
       = (case capture r ln (emit MicEnter w) of
            (Inl response, w1) \<Rightarrow> (Inr response, emit MicExit w1)
          | (Inr audio, w1) \<Rightarrow>
              (Inr (fst (recognize_audio r lc (emit MicExit w1))),
               snd (recognize_audio r lc (emit MicExit w1))))"
  by (simp add: recognize_speech_from_mic_def split: prod.splits sum.splits)

lemma keys_result_dict [simp]:
  "keys (result_dict s e t) = [''success'', ''error'', ''transcription'']"
  by (simp add: keys_def result_dict_def)

lemma keys_recognize_audio:
  "keys (fst (recognize_audio r lc w)) = [''success'', ''error'', ''transcription'']"
  by (simp add: recognize_audio_def Let_def keys_def result_dict_def
      split: outcome.splits exn.splits)

lemma keys_capture:
  "fst (capture r ln w) = Inl d \<Longrightarrow> keys d = [''success'', ''error'', ''transcription'']"
  by (auto simp: capture_def Let_def split: outcome.splits exn.splits)

text \<open>
  When the microphone opens and closes, or an argument fails its instance check, the
  function returns a dictionary with the three keys, whatever the recogniser does. With
  the timeout and with unintelligible speech, \<^verbatim>\<open>success\<close> is true, \<^verbatim>\<open>transcription\<close>
  is \<open>None\<close> and \<^verbatim>\<open>error\<close> is a string (\<open>capture_timeout\<close>,
  \<open>recognize_audio_unknown_value\<close>).
\<close>

lemma recognize_result_shape:
  assumes "recognizer = None \<or> microphone = None
           \<or> (\<exists>mic. microphone = Some mic \<and> mic_enter mic = Returns ()
                  \<and> mic_exit mic = Returns ())"
  shows "\<exists>d. fst (recognize_speech_from_mic recognizer microphone lc ln w) = Inr d
             \<and> keys d = [''success'', ''error'', ''transcription'']"
proof (cases recognizer)
  case None
  then show ?thesis by (simp add: recognize_speech_from_mic_def)
next
  case (Some r)
  show ?thesis
  proof (cases microphone)
    case None
    with Some show ?thesis by (simp add: recognize_speech_from_mic_def)
  next
    case mic: (Some m)
    with Some assms have ok: "mic_enter m = Returns ()" "mic_exit m = Returns ()"
      by auto
    obtain body w1 where cap: "capture r ln (emit MicEnter w) = (body, w1)"
      by (cases "capture r ln (emit MicEnter w)")
    show ?thesis
    proof (cases body)
      case (Inl d)
      with cap keys_capture [of r ln "emit MicEnter w" d] Some mic ok show ?thesis
        by (simp add: recognize_with_microphone)
    next
      case (Inr audio)
      with cap keys_recognize_audio Some mic ok show ?thesis
        by (simp add: recognize_with_microphone)
    qed
  qed
qed

text \<open>
  Claim C10 at the inputs where the code departs from it. The \<^verbatim>\<open>with\<close> statement of
  line 68 stands outside every \<^verbatim>\<open>try\<close>. When opening the microphone raises, the
  exception leaves \<open>recognize_speech_from_mic\<close>, no dictionary is returned, and the
  exception ends the program, whose loop catches \<^verbatim>\<open>KeyboardInterrupt\<close> only. When
  closing the microphone raises, the exception replaces the dictionary that the
  \<^verbatim>\<open>return\<close> of line 74 was about to hand back.
\<close>

theorem C10_microphone_failure_escapes:
  "fst (recognize_speech_from_mic (Some (turn_recognizer hello_env)) (Some broken_microphone)
          ''en-US'' ''English (US)'' world0)
     = Inl (OtherError ''[Errno -9996] Invalid input device (no default output device)'')
   \<and> fst (fst (main_program (Some echo_model) unplugged_envs clean_exit [''1'', []] world0))
     = Some (OtherError ''[Errno -9996] Invalid input device (no default output device)'')
   \<and> fst (recognize_speech_from_mic (Some uncalibrated_recognizer) (Some stuck_microphone)
          ''en-US'' ''English (US)'' world0)
     = Inl (OtherError ''NoneType object has no attribute close'')"
  by code_simp

section \<open>The session loop\<close>




lemma handle_transcript_without_model:
  "t \<noteq> [] \<Longrightarrow>
   handle_speech_result None tts s (result_dict (PyBool True) PyNone (PyStr t)) w
     = speak_text (PyStr AI_UNAVAILABLE_PROMPT) (current_gtts_lang s) tts
         (print ''Gemini AI is not configured. Cannot get AI response.''
            (print (replicate 30 CHR ''-'')
               (print (''You ('' @ current_speech_lang_name s @ ''): '' @ t)
                  (print (replicate 30 CHR ''-'') w))))"
  by (simp add: handle_speech_result_def result_dict_def dict_get_def Let_def)

lemma listening_turn_with_microphone:
  "mic_enter (turn_microphone env) = Returns () \<Longrightarrow>
   mic_exit (turn_microphone env) = Returns () \<Longrightarrow>
     listening_turn model env s w
       = (case capture (turn_recognizer env) (current_speech_lang_name s) (emit MicEnter w) of
            (Inl response, w1) \<Rightarrow>
              handle_speech_result model (turn_tts env) s response (emit MicExit w1)
          | (Inr audio, w1) \<Rightarrow>
              handle_speech_result model (turn_tts env) s
                (fst (recognize_audio (turn_recognizer env) (current_speech_lang_code s)
                        (emit MicExit w1)))
                (snd (recognize_audio (turn_recognizer env) (current_speech_lang_code s)
                        (emit MicExit w1))))"
  by (simp add: listening_turn_def recognize_with_microphone split: prod.splits sum.splits)



lemma AI_UNAVAILABLE_PROMPT_nonempty: "AI_UNAVAILABLE_PROMPT \<noteq> []"
  by (simp add: AI_UNAVAILABLE_PROMPT_def)

text \<open>The three ways of a round, by the line read at the idle prompt.\<close>

lemma loop_body_quits:
  "lower (strip line) = ''q'' \<Longrightarrow>
     loop_body model env s (line # stdin) w
       = (Inr (Break, s), stdin,
          print ''Exiting assistant. Goodbye!'' (emit (Input IDLE_PROMPT) w))"
  by (simp add: loop_body_def input_def)

lemma loop_body_selects:
  assumes "lower (strip line) = ''c''"
  shows "loop_body model env s (line # stdin) w
       = (case select_language stdin (emit (Input IDLE_PROMPT) w) of
            (Inl e, stdin2, w2) \<Rightarrow> (Inl e, stdin2, w2)
          | (Inr selected_lang_info, stdin2, w2) \<Rightarrow>
              (Inr (Continue, session_of selected_lang_info), stdin2,
               print (newline @ ''Language changed to: '' @ name selected_lang_info
                        @ '' (Code: '' @ code selected_lang_info @ '')'') w2))"
proof (cases "select_language stdin (emit (Input IDLE_PROMPT) w)")
  case (fields r stdin2 w2)
  with assms show ?thesis
    by (cases r) (simp_all add: loop_body_def input_def Let_def session_of_def)
qed

lemma loop_body_listens:
  "lower (strip line) \<noteq> ''q'' \<Longrightarrow> lower (strip line) \<noteq> ''c'' \<Longrightarrow>
     loop_body model env s (line # stdin) w
       = (case listening_turn model env s (emit (Input IDLE_PROMPT) w) of
            (Some e, w2) \<Rightarrow> (Inl e, stdin, w2)
          | (None, w2) \<Rightarrow> (Inr (Continue, s), stdin, w2))"
  by (simp add: loop_body_def input_def Let_def)

lemma loop_body_continues:
  "lower (strip line) \<noteq> ''q'' \<Longrightarrow> lower (strip line) \<noteq> ''c'' \<Longrightarrow>
   fst (listening_turn model env s (emit (Input IDLE_PROMPT) w)) = None \<Longrightarrow>
     loop_body model env s (line # stdin) w
       = (Inr (Continue, s), stdin,
          snd (listening_turn model env s (emit (Input IDLE_PROMPT) w)))"
  by (cases "listening_turn model env s (emit (Input IDLE_PROMPT) w)")
     (simp add: loop_body_listens)

lemma loop_body_same_choice:
  "lower (strip line1) = lower (strip line2) \<Longrightarrow>
     loop_body model env s (line1 # stdin) w = loop_body model env s (line2 # stdin) w"
  by (simp add: loop_body_def input_def Let_def)

lemma session_loop_quits:
  "lower (strip line) = ''q'' \<Longrightarrow>
     session_loop model envs n s (line # stdin) w
       = ((None, [s]), stdin,
          print ''Exiting assistant. Goodbye!'' (emit (Input IDLE_PROMPT) w))"
  by (subst session_loop.simps) (simp add: loop_body_quits)

text \<open>Lines 271 to 275, outcome by outcome.\<close>

lemma main_finally_outcomes:
  "exit_get_init up = Raises e \<Longrightarrow> main_finally up w = (Some e, w)"
  "exit_get_init up = Returns False \<Longrightarrow>
     main_finally up w = (None, print ''Application closed.'' w)"
  "exit_get_init up = Returns True \<Longrightarrow> exit_mixer_quit up = Raises e \<Longrightarrow>
     main_finally up w = (Some e, emit MixerQuit w)"
  "exit_get_init up = Returns True \<Longrightarrow> exit_mixer_quit up = Returns () \<Longrightarrow>
     main_finally up w = (None, print ''Application closed.'' (emit MixerQuit w))"
  by (simp_all add: main_finally_def)

text \<open>The remote model is not called when there is no model handle.\<close>

lemma service_calls_capture [simp]:
  "service_calls (trace (snd (capture r ln w))) = service_calls (trace w)"
  by (simp add: capture_def Let_def split: outcome.splits exn.splits)

lemma service_calls_recognize_audio [simp]:
  "service_calls (trace (snd (recognize_audio r lc w))) = service_calls (trace w)"
  by (simp add: recognize_audio_def Let_def split: outcome.splits exn.splits)

lemma service_calls_recognize [simp]:
  "service_calls (trace (snd (recognize_speech_from_mic r m lc ln w))) = service_calls (trace w)"
  by (simp add: recognize_speech_from_mic_def split_beta
      split: option.splits outcome.splits sum.splits)

lemma service_calls_handle_without_model [simp]:
  "service_calls (trace (snd (handle_speech_result None tts s d w))) = service_calls (trace w)"
  by (simp add: handle_speech_result_def Let_def split: sum.splits)

lemma service_calls_listening_without_model [simp]:
  "service_calls (trace (snd (listening_turn None env s w))) = service_calls (trace w)"
  by (simp add: listening_turn_def split_beta split: sum.splits)

text \<open>
  Claim C3. Without a model handle, \<open>get_ai_response\<close> returns the reply of the missing
  model for every prompt and does not call the remote service. The session loop does
  not call it either: in a round without a model handle no call reaches the remote
  service, and when the round has a transcript, the loop speaks the fixed message
  about its unavailable AI brain, once, in the current language. That round raises
  nothing exactly when the calls of lines 143 to 146, which \<open>speak_text\<close> makes
  outside every \<^verbatim>\<open>try\<close>, return.
\<close>

theorem C3_no_model_no_call:
  "get_ai_response None prompt w
     = (UNAVAILABLE_REPLY,
        logger WARNING ''Gemini model is not initialized. Cannot get AI response.'' w)
   \<and> service_calls (trace (snd (get_ai_response None prompt w))) = service_calls (trace w)
   \<and> service_calls (trace (snd (listening_turn None env s w))) = service_calls (trace w)
   \<and> (mic_enter (turn_microphone env) = Returns ()
        \<and> mic_exit (turn_microphone env) = Returns ()
        \<and> adjust_for_ambient_noise (turn_recognizer env) = Returns ()
        \<and> listen (turn_recognizer env) = Returns audio
        \<and> recognize_google (turn_recognizer env) = Returns t \<and> t \<noteq> [] \<longrightarrow>
       (fst (listening_turn None env s w) = None) = cleanup_calls_return (turn_tts env)
       \<and> spoken (trace (snd (listening_turn None env s w)))
           = spoken (trace w) @ [(AI_UNAVAILABLE_PROMPT, current_gtts_lang s)])
   \<and> AI_UNAVAILABLE_PROMPT = ''I'm sorry, my AI brain is currently unavailable.''"
  by (simp add: get_ai_response_def listening_turn_with_microphone capture_audio
      recognize_audio_returns handle_transcript_without_model spoken_speak_text
      speak_text_returns_iff AI_UNAVAILABLE_PROMPT_nonempty)
     (simp add: AI_UNAVAILABLE_PROMPT_def)

theorem C3_no_model_no_call_witness:
  "mic_enter (turn_microphone hello_env) = Returns ()
   \<and> mic_exit (turn_microphone hello_env) = Returns ()
   \<and> adjust_for_ambient_noise (turn_recognizer hello_env) = Returns ()
   \<and> listen (turn_recognizer hello_env) = Returns 0
   \<and> recognize_google (turn_recognizer hello_env) = Returns ''hello''
   \<and> cleanup_calls_return (turn_tts hello_env)
   \<and> fst (listening_turn None hello_env english world0) = None
   \<and> spoken (trace (snd (listening_turn None hello_env english world0)))
       = [(''I'm sorry, my AI brain is currently unavailable.'', ''en'')]
   \<and> service_calls (trace (snd (listening_turn None hello_env english world0))) = []"
proof -
  have env: "mic_enter (turn_microphone hello_env) = Returns ()
      \<and> mic_exit (turn_microphone hello_env) = Returns ()
      \<and> adjust_for_ambient_noise (turn_recognizer hello_env) = Returns ()
      \<and> listen (turn_recognizer hello_env) = Returns 0
      \<and> recognize_google (turn_recognizer hello_env) = Returns ''hello'' \<and> ''hello'' \<noteq> []"
    by (simp add: hello_env_def working_microphone_def)
  have cleanup: "cleanup_calls_return (turn_tts hello_env)"
    by (simp add: hello_env_def working_tts_returns)
  from env cleanup C3_no_model_no_call [of "[]" world0 hello_env english 0 "''hello''"]
  show ?thesis
    by (simp add: world0_def english_def)
qed







text \<open>Stripping and lowering a line that is one letter within whitespace.\<close>

lemma dropWhile_all:
  "\<forall>c\<in>set xs. P c \<Longrightarrow> dropWhile P (xs @ ys) = dropWhile P ys"
  by (induction xs) simp_all

lemma strip_padded:
  assumes "\<forall>c\<in>set pre. py_isspace c" "\<forall>c\<in>set post. py_isspace c" "\<not> py_isspace x"
  shows "strip (pre @ [x] @ post) = [x]"
proof -
  from assms(1,3) have "dropWhile py_isspace (pre @ [x] @ post) = x # post"
    by (simp add: dropWhile_all)
  moreover from assms(2,3) have "dropWhile py_isspace (rev post @ [x]) = [x]"
    by (simp add: dropWhile_all)
  ultimately show ?thesis
    by (simp add: strip_def)
qed

lemma strip_whitespace:
  assumes "\<forall>c\<in>set ws. py_isspace c"
  shows "strip ws = []"
proof -
  from assms have "dropWhile py_isspace ws = []"
    by simp
  then show ?thesis
    by (simp add: strip_def del: dropWhile_eq_Nil_conv)
qed

lemma lower_char_Q: "lower_char CHR ''Q'' = CHR ''q''" "lower_char CHR ''q'' = CHR ''q''"
  by code_simp+

lemma lower_char_C: "lower_char CHR ''C'' = CHR ''c''" "lower_char CHR ''c'' = CHR ''c''"
  by code_simp+

lemma lower_strip_padded_q:
  assumes "\<forall>c\<in>set pre. py_isspace c" "\<forall>c\<in>set post. py_isspace c"
  shows "lower (strip (pre @ ''Q'' @ post)) = ''q'' \<and> lower (strip (pre @ ''q'' @ post)) = ''q''"
proof -
  have "\<not> py_isspace CHR ''Q''" "\<not> py_isspace CHR ''q''"
    by (simp_all add: py_isspace_def)
  from strip_padded [OF assms this(1)] strip_padded [OF assms this(2)] show ?thesis
    by (simp add: lower_def lower_char_Q)
qed

lemma lower_strip_padded_c:
  assumes "\<forall>c\<in>set pre. py_isspace c" "\<forall>c\<in>set post. py_isspace c"
  shows "lower (strip (pre @ ''C'' @ post)) = ''c'' \<and> lower (strip (pre @ ''c'' @ post)) = ''c''"
proof -
  have "\<not> py_isspace CHR ''C''" "\<not> py_isspace CHR ''c''"
    by (simp_all add: py_isspace_def)
  from strip_padded [OF assms this(1)] strip_padded [OF assms this(2)] show ?thesis
    by (simp add: lower_def lower_char_C)
qed

lemma strip_Q: "lower (strip '' Q '') = ''q''"
  using lower_strip_padded_q [of "'' ''" "'' ''"] by (simp add: py_isspace_def)

text \<open>
  Claim C7. With \<open>choice\<close> the line read at the idle prompt, stripped and lowered:
  \<^item> when \<open>choice\<close> is \<^verbatim>\<open>q\<close>, the round ends the loop, and the loop returns without
    reading further input;
  \<^item> when \<open>choice\<close> is \<^verbatim>\<open>c\<close>, the round runs \<open>select_language\<close> on the input that
    follows and continues with the language selected;
  \<^item> otherwise the round is a listening turn in the current language;
  \<^item> so \<^verbatim>\<open>Q\<close> and \<^verbatim>\<open>q\<close>, and \<^verbatim>\<open>C\<close> and \<^verbatim>\<open>c\<close>, within any leading and trailing
    whitespace, give the same round, and a line of whitespace only, the empty line
    among them, gives a listening turn.
\<close>

theorem C7_idle_dispatch:
  "(lower (strip line) = ''q'' \<longrightarrow>
      loop_body model env s (line # stdin) w
        = (Inr (Break, s), stdin,
           print ''Exiting assistant. Goodbye!'' (emit (Input IDLE_PROMPT) w))
      \<and> session_loop model envs n s (line # stdin) w
        = ((None, [s]), stdin,
           print ''Exiting assistant. Goodbye!'' (emit (Input IDLE_PROMPT) w)))
   \<and> (lower (strip line) = ''c'' \<longrightarrow>
      loop_body model env s (line # stdin) w
        = (case select_language stdin (emit (Input IDLE_PROMPT) w) of
             (Inl e, stdin2, w2) \<Rightarrow> (Inl e, stdin2, w2)
           | (Inr selected_lang_info, stdin2, w2) \<Rightarrow>
               (Inr (Continue, session_of selected_lang_info), stdin2,
                print (newline @ ''Language changed to: '' @ name selected_lang_info
                         @ '' (Code: '' @ code selected_lang_info @ '')'') w2)))
   \<and> (lower (strip line) \<noteq> ''q'' \<and> lower (strip line) \<noteq> ''c'' \<longrightarrow>
      loop_body model env s (line # stdin) w
        = (case listening_turn model env s (emit (Input IDLE_PROMPT) w) of
             (Some e, w2) \<Rightarrow> (Inl e, stdin, w2)
           | (None, w2) \<Rightarrow> (Inr (Continue, s), stdin, w2)))
   \<and> ((\<forall>c\<in>set pre. py_isspace c) \<and> (\<forall>c\<in>set post. py_isspace c) \<longrightarrow>
      loop_body model env s ((pre @ ''Q'' @ post) # stdin) w
        = loop_body model env s (''q'' # stdin) w
      \<and> loop_body model env s ((pre @ ''C'' @ post) # stdin) w
        = loop_body model env s (''c'' # stdin) w
      \<and> loop_body model env s ((pre @ post) # stdin) w
        = (case listening_turn model env s (emit (Input IDLE_PROMPT) w) of
             (Some e, w2) \<Rightarrow> (Inl e, stdin, w2)
           | (None, w2) \<Rightarrow> (Inr (Continue, s), stdin, w2)))"
proof -
  have enter: "loop_body model env s (ws # stdin) w
        = (case listening_turn model env s (emit (Input IDLE_PROMPT) w) of
             (Some e, w2) \<Rightarrow> (Inl e, stdin, w2)
           | (None, w2) \<Rightarrow> (Inr (Continue, s), stdin, w2))"
    if "\<forall>c\<in>set ws. py_isspace c" for ws
    using that by (simp add: loop_body_listens strip_whitespace lower_def)
  have q: "loop_body model env s ((pre @ ''Q'' @ post) # stdin) w
        = loop_body model env s (''q'' # stdin) w"
    if "\<forall>c\<in>set pre. py_isspace c" "\<forall>c\<in>set post. py_isspace c"
    using lower_strip_padded_q [OF that] lower_strip_padded_q [of "[]" "[]"]
    by (intro loop_body_same_choice) simp
  have c: "loop_body model env s ((pre @ ''C'' @ post) # stdin) w
        = loop_body model env s (''c'' # stdin) w"
    if "\<forall>c\<in>set pre. py_isspace c" "\<forall>c\<in>set post. py_isspace c"
    using lower_strip_padded_c [OF that] lower_strip_padded_c [of "[]" "[]"]
    by (intro loop_body_same_choice) simp
  show ?thesis
    using enter [of "pre @ post"] q c
    by (auto simp: loop_body_quits loop_body_selects loop_body_listens session_loop_quits)
qed

theorem C7_idle_dispatch_witness:
  "lower (strip '' Q '') = ''q''
   \<and> fst (session_loop None steady_envs 0 english ['' Q '', ''1''] world0) = (None, [english])
   \<and> fst (snd (session_loop None steady_envs 0 english ['' Q '', ''1''] world0)) = [''1'']
   \<and> lower (strip ''C'') = ''c''
   \<and> fst (loop_body None hello_env english [''C'', ''2''] world0) = Inr (Continue, hindi)
   \<and> lower (strip []) \<noteq> ''q'' \<and> lower (strip []) \<noteq> ''c''
   \<and> fst (loop_body None hello_env english [[]] world0) = Inr (Continue, english)"
proof -
  have choices: "lower (strip '' Q '') = ''q''" "lower (strip ''C'') = ''c''"
    "lower (strip []) \<noteq> ''q'' \<and> lower (strip []) \<noteq> ''c''"
    using lower_strip_padded_c [of "[]" "[]"] by (simp_all add: strip_Q) (simp add: strip_def lower_def)
  note inst = C7_idle_dispatch [of _ None hello_env english _ world0 steady_envs 0 "[]" "[]"]
  from inst [of "'' Q ''" "[''1'']"] choices(1)
  have quit: "session_loop None steady_envs 0 english ['' Q '', ''1''] world0
        = ((None, [english]), [''1''],
           print ''Exiting assistant. Goodbye!'' (emit (Input IDLE_PROMPT) world0))"
    by simp
  from inst [of "''C''" "[''2'']"] choices(2)
  have change: "fst (loop_body None hello_env english [''C'', ''2''] world0)
       = Inr (Continue, hindi)"
    by (simp add: select_language_def SUPPORTED_LANGUAGES_def Let_def session_of_def hindi_def)
  have "fst (listening_turn None hello_env english (emit (Input IDLE_PROMPT) world0)) = None"
    by (simp add: listening_turn_with_microphone hello_env_def working_microphone_def
        capture_audio recognize_audio_returns handle_transcript_without_model
        speak_text_returns working_tts_returns)
  with inst [of "[]" "[]"] choices(3)
  have listen: "fst (loop_body None hello_env english [[]] world0) = Inr (Continue, english)"
    by (cases "listening_turn None hello_env english (emit (Input IDLE_PROMPT) world0)") simp
  from choices quit change listen show ?thesis
    by simp
qed

section \<open>The current language\<close>

lemma select_language_loop_registry:
  "fst (select_language_loop stdin w) = Inr p \<Longrightarrow> p \<in> snd ` set SUPPORTED_LANGUAGES"
proof (induction stdin arbitrary: w)
  case Nil
  then show ?case by simp
next
  case (Cons choice stdin)
  then show ?case
    by (cases "map_of SUPPORTED_LANGUAGES choice")
       (auto simp: Let_def dest: map_of_SomeD intro: rev_image_eqI)
qed

lemma select_language_registry:
  "fst (select_language stdin w) = Inr p \<Longrightarrow> p \<in> snd ` set SUPPORTED_LANGUAGES"
  unfolding select_language_def by (rule select_language_loop_registry)

lemma session_of_registry:
  "p \<in> snd ` set SUPPORTED_LANGUAGES \<Longrightarrow> session_of p \<in> set registry_sessions"
  by (auto simp: registry_sessions_def intro!: rev_image_eqI)

lemma select_language_loop_reprompts:
  "\<forall>k\<in>set bad. map_of SUPPORTED_LANGUAGES k = None \<Longrightarrow>
   map_of SUPPORTED_LANGUAGES key = Some p \<Longrightarrow>
     fst (select_language_loop (bad @ key # rest) w) = Inr p
     \<and> fst (snd (select_language_loop (bad @ key # rest) w)) = rest
     \<and> printed (trace (snd (snd (select_language_loop (bad @ key # rest) w))))
         = printed (trace w) @ replicate (length bad) ''Invalid choice. Please try again.''"
  by (induction bad arbitrary: w) (simp_all add: Let_def replicate_append_same)

lemma printed_menu:
  "printed (trace (fold (\<lambda>(key, lang_info). print (key @ '': '' @ name lang_info))
       SUPPORTED_LANGUAGES
       (print (newline @ ''Please select a language for speech recognition and TTS:'') w)))
     = printed (trace w) @ MENU"
  by (simp add: SUPPORTED_LANGUAGES_def MENU_def)

lemma loop_body_session:
  assumes "fst (loop_body model env s stdin w) = Inr (f, s')"
  shows "s' = s \<or> s' \<in> set registry_sessions"
proof (cases stdin)
  case Nil
  with assms show ?thesis by (simp add: loop_body_def input_def)
next
  case (Cons line rest)
  show ?thesis
  proof (cases "lower (strip line) = ''q''")
    case True
    with assms Cons show ?thesis by (simp add: loop_body_quits)
  next
    case notq: False
    show ?thesis
    proof (cases "lower (strip line) = ''c''")
      case True
      obtain r stdin2 w2
        where sel: "select_language rest (emit (Input IDLE_PROMPT) w) = (r, stdin2, w2)"
        by (cases "select_language rest (emit (Input IDLE_PROMPT) w)")
      with assms Cons True obtain p where "r = Inr p" "s' = session_of p"
        by (cases r) (auto simp: loop_body_selects)
      with sel select_language_registry [of rest "emit (Input IDLE_PROMPT) w" p]
      show ?thesis by (simp add: session_of_registry)
    next
      case False
      with assms Cons notq show ?thesis
        by (auto simp: loop_body_listens split: prod.splits option.splits)
    qed
  qed
qed

lemma session_loop_visited:
  "s \<in> set registry_sessions \<Longrightarrow>
     \<forall>x\<in>set (snd (fst (session_loop model envs n s stdin w))). x \<in> set registry_sessions"
proof (induction model envs n s stdin w rule: session_loop.induct)
  case (1 model envs n s stdin w)
  obtain r stdin1 w1 where body: "loop_body model (envs n) s stdin w = (r, stdin1, w1)"
    by (cases "loop_body model (envs n) s stdin w")
  show ?case
  proof (cases r)
    case (Inl e)
    with body "1.prems" show ?thesis
      by (subst session_loop.simps) simp
  next
    case (Inr b)
    obtain f s' where b: "b = (f, s')" by (cases b)
    show ?thesis
    proof (cases f)
      case Break
      with body Inr b "1.prems" show ?thesis
        by (subst session_loop.simps) simp
    next
      case Continue
      from body Inr b loop_body_session [of model "envs n" s stdin w f s'] "1.prems"
      have "s' \<in> set registry_sessions" by auto
      from "1.IH" [OF body [symmetric] Inr b [symmetric] Continue refl this]
      have "\<forall>x\<in>set (snd (fst (session_loop model envs (Suc n) s' stdin1 w1))).
              x \<in> set registry_sessions" .
      with body Inr b Continue "1.prems" show ?thesis
        by (subst session_loop.simps)
           (cases "session_loop model envs (Suc n) s' stdin1 w1", auto)
    qed
  qed
qed

text \<open>
  Claim C9. In every run of the program, whatever the input and the devices, the
  session variables that each round of the loop finds are those of one registry entry.
  This rests on three facts: \<open>select_language\<close> returns registry entries only; it asks
  again after every invalid key, however many there are, and returns the entry of the
  first valid key; and a round leaves the session variables as they were unless it
  assigns them from the entry that \<open>select_language\<close> returned.
\<close>

theorem C9_current_language_in_registry:
  "(\<forall>x\<in>set (snd (fst (main_program model envs up stdin w))). x \<in> set registry_sessions)
   \<and> (\<forall>p. fst (select_language stdin w) = Inr p \<longrightarrow> p \<in> snd ` set SUPPORTED_LANGUAGES)
   \<and> (\<forall>bad key p rest.
        (\<forall>k\<in>set bad. map_of SUPPORTED_LANGUAGES k = None)
        \<and> map_of SUPPORTED_LANGUAGES key = Some p \<longrightarrow>
          fst (select_language (bad @ key # rest) w) = Inr p
          \<and> fst (snd (select_language (bad @ key # rest) w)) = rest
          \<and> printed (trace (snd (snd (select_language (bad @ key # rest) w))))
              = printed (trace w) @ MENU
                  @ replicate (length bad) ''Invalid choice. Please try again.'')
   \<and> (\<forall>f s'. fst (loop_body model env s stdin w) = Inr (f, s') \<longrightarrow>
        s' = s \<or> s' \<in> set registry_sessions)"
proof -
  have visited:
    "\<forall>x\<in>set (snd (fst (main_program model envs up stdin w))). x \<in> set registry_sessions"
  proof (cases "select_language stdin w")
    case (fields r stdin1 w1)
    show ?thesis
    proof (cases r)
      case (Inl e)
      with fields show ?thesis by (simp add: main_program_def)
    next
      case (Inr p)
      with fields select_language_registry [of stdin w p]
      have "session_of p \<in> set registry_sessions"
        by (simp add: session_of_registry)
      from session_loop_visited [OF this] fields Inr show ?thesis
        by (simp add: main_program_def Let_def split_beta split: option.splits)
    qed
  qed
  have reprompts:
    "fst (select_language (bad @ key # rest) w) = Inr p
     \<and> fst (snd (select_language (bad @ key # rest) w)) = rest
     \<and> printed (trace (snd (snd (select_language (bad @ key # rest) w))))
         = printed (trace w) @ MENU @ replicate (length bad) ''Invalid choice. Please try again.''"
    if "\<forall>k\<in>set bad. map_of SUPPORTED_LANGUAGES k = None"
       "map_of SUPPORTED_LANGUAGES key = Some p" for bad key p rest
    using select_language_loop_reprompts [OF that] printed_menu
    by (simp add: select_language_def)
  from visited reprompts show ?thesis
    by (auto dest: select_language_registry loop_body_session)
qed

theorem C9_current_language_witness:
  "snd (fst (main_program None steady_envs clean_exit [''9'', ''2'', [], ''c'', ''3'', '' Q ''] world0))
     = [hindi, hindi, kannada]
   \<and> hindi \<in> set registry_sessions \<and> kannada \<in> set registry_sessions
   \<and> map_of SUPPORTED_LANGUAGES ''9'' = None \<and> map_of SUPPORTED_LANGUAGES ''0'' = None
   \<and> map_of SUPPORTED_LANGUAGES ''2''
       = Some \<lparr>name = ''Hindi (India)'', code = ''hi-IN'', gtts_lang = ''hi''\<rparr>
   \<and> fst (select_language [''9'', ''0'', ''2'', ''q''] world0)
       = Inr \<lparr>name = ''Hindi (India)'', code = ''hi-IN'', gtts_lang = ''hi''\<rparr>
   \<and> fst (snd (select_language [''9'', ''0'', ''2'', ''q''] world0)) = [''q'']"
proof -
  have quit: "snd (fst (session_loop None steady_envs n s ['' Q ''] w)) = [s]" for n s w
    by (simp add: session_loop_quits strip_Q)
  have change:
    "snd (fst (session_loop None steady_envs n s [''c'', ''3'', '' Q ''] w)) = [s, kannada]"
    for n s w
    by (subst session_loop.simps)
       (simp add: loop_body_selects strip_def lower_def lower_char_C py_isspace_def
          select_language_def SUPPORTED_LANGUAGES_def Let_def session_of_def quit kannada_def
          split_beta)
  have turn: "fst (listening_turn None hello_env s w) = None" for s w
    by (simp add: listening_turn_with_microphone hello_env_def working_microphone_def
        capture_audio recognize_audio_returns handle_transcript_without_model
        speak_text_returns working_tts_returns)
  have listen:
    "snd (fst (session_loop None steady_envs n s [[], ''c'', ''3'', '' Q ''] w))
       = [s, s, kannada]" for n s w
    by (subst session_loop.simps)
       (simp add: loop_body_continues strip_def lower_def turn steady_envs_def change split_beta)
  have run:
    "snd (fst (main_program None steady_envs clean_exit [''9'', ''2'', [], ''c'', ''3'', '' Q ''] world0))
       = [hindi, hindi, kannada]"
    by (simp add: main_program_def main_finally_def clean_exit_def select_language_def
        SUPPORTED_LANGUAGES_def Let_def session_of_def listen hindi_def split_beta)
  have keys: "\<forall>k\<in>set [''9'', ''0'']. map_of SUPPORTED_LANGUAGES k = None"
    "map_of SUPPORTED_LANGUAGES ''2''
       = Some \<lparr>name = ''Hindi (India)'', code = ''hi-IN'', gtts_lang = ''hi''\<rparr>"
    by (simp_all add: SUPPORTED_LANGUAGES_def)
  note inst = C9_current_language_in_registry
    [of None steady_envs clean_exit "[''9'', ''2'', [], ''c'', ''3'', '' Q '']" world0 hello_env english]
  from inst run have members: "hindi \<in> set registry_sessions" "kannada \<in> set registry_sessions"
    by simp_all
  from C9_current_language_in_registry
    [of None steady_envs clean_exit "[]" world0 hello_env english] keys
  have "fst (select_language ([''9'', ''0''] @ ''2'' # [''q'']) world0)
       = Inr \<lparr>name = ''Hindi (India)'', code = ''hi-IN'', gtts_lang = ''hi''\<rparr>
     \<and> fst (snd (select_language ([''9'', ''0''] @ ''2'' # [''q'']) world0)) = [''q'']"
    by blast
  with run members keys show ?thesis
    by simp
qed

end
